theory Spec2Isabelle
  imports Main
begin

section \<open>JavaScript values\<close>

text \<open>
  The extension is JavaScript, so its parameters are loosely typed. The primitive values
  that reach the code are modelled by \<open>js_value\<close>. A number value is an integer
  (\<open>Fin n\<close>, standing for the double of that value) or \<open>NaN\<close>. Strings are lists of
  8-bit characters, read as the code units below 256.
\<close>

datatype js_number = Fin int | NaN

datatype js_value =
    JUndefined
  | JNull
  | JBool bool
  | JNum js_number
  | JStr string

text \<open>An object is a finite map from property names to values; reading a missing
  property gives \<open>undefined\<close>.\<close>

type_synonym js_object = "string \<rightharpoonup> js_value"

definition getProp :: "js_object \<Rightarrow> string \<Rightarrow> js_value" where
  "getProp obj k = (case obj k of None \<Rightarrow> JUndefined | Some v \<Rightarrow> v)"

text \<open>Optional chaining \<open>named?.k\<close>: \<open>None\<close> stands for a \<open>named\<close> that is
  \<open>undefined\<close> or \<open>null\<close>.\<close>

definition optProp :: "js_object option \<Rightarrow> string \<Rightarrow> js_value" where
  "optProp named k = (case named of None \<Rightarrow> JUndefined | Some obj \<Rightarrow> getProp obj k)"

text \<open>ToBoolean.\<close>

fun truthy :: "js_value \<Rightarrow> bool" where
  "truthy JUndefined = False"
| "truthy JNull = False"
| "truthy (JBool b) = b"
| "truthy (JNum (Fin n)) = (n \<noteq> 0)"
| "truthy (JNum NaN) = False"
| "truthy (JStr s) = (s \<noteq> [])"

text \<open>The operators \<open>a || b\<close> and \<open>a && b\<close> return one of their operands.\<close>

definition js_or :: "js_value \<Rightarrow> js_value \<Rightarrow> js_value" where
  "js_or a b = (if truthy a then a else b)"

definition js_and :: "js_value \<Rightarrow> js_value \<Rightarrow> js_value" where
  "js_and a b = (if truthy a then b else a)"

subsection \<open>Strings\<close>

definition newline :: char where
  "newline = CHR 0x0A"

text \<open>White space and line terminators, as far as they are 8-bit characters.\<close>

definition is_ws :: "char \<Rightarrow> bool" where
  "is_ws c = (c \<in> set [CHR 0x09, CHR 0x0A, CHR 0x0B, CHR 0x0C, CHR 0x0D, CHR 0x20, CHR 0xA0])"

text \<open>\<open>String.prototype.trim\<close>.\<close>

definition trim :: "string \<Rightarrow> string" where
  "trim s = rev (dropWhile is_ws (rev (dropWhile is_ws s)))"

text \<open>\<open>String.prototype.includes\<close> and \<open>String.prototype.startsWith\<close>.\<close>

definition startsWith :: "string \<Rightarrow> string \<Rightarrow> bool" where
  "startsWith s p = (take (length p) s = p)"


subsection \<open>Numbers and strings\<close>

definition digit_char :: "nat \<Rightarrow> char" where
  "digit_char d = char_of (48 + d)"

fun digits_of_nat :: "nat \<Rightarrow> string" where
  "digits_of_nat n = (if n < 10 then [digit_char n] else digits_of_nat (n div 10) @ [digit_char (n mod 10)])"

definition string_of_int :: "int \<Rightarrow> string" where
  "string_of_int i = (if i < 0 then CHR ''-'' # digits_of_nat (nat (- i)) else digits_of_nat (nat i))"

text \<open>ToString, as a template literal and string concatenation apply it; an integer
  prints in plain decimal (as JavaScript prints it below \<open>10^21\<close>).\<close>

fun toString :: "js_value \<Rightarrow> string" where
  "toString JUndefined = ''undefined''"
| "toString JNull = ''null''"
| "toString (JBool b) = (if b then ''true'' else ''false'')"
| "toString (JNum (Fin n)) = string_of_int n"
| "toString (JNum NaN) = ''NaN''"
| "toString (JStr s) = s"

definition is_digit :: "char \<Rightarrow> bool" where
  "is_digit c = (48 \<le> (of_char c :: nat) \<and> (of_char c :: nat) \<le> 57)"

definition nat_of_digits :: "string \<Rightarrow> nat" where
  "nat_of_digits ds = foldl (\<lambda>acc c. 10 * acc + ((of_char c :: nat) - 48)) 0 ds"

text \<open>
  What \<open>Number(v)\<close> returns. The model computes StringToNumber where it is exact and
  simple: on the blank string, and on a string of at most 15 decimal digits with white
  space around it. For every other string \<open>s\<close> the result stays symbolic:
  \<open>NumberOf s\<close> is the number that JavaScript's StringToNumber gives \<open>s\<close> (a
  fraction, an exponent or radix form, a signed or long literal, an infinity, or
  \<open>NaN\<close> when \<open>s\<close> is no numeric literal), which this model does not compute.
\<close>

datatype number_result = Num js_number | NumberOf string

definition string_to_number :: "string \<Rightarrow> number_result" where
  "string_to_number s =
     (let t = trim s in
      if t = [] then Num (Fin 0)
      else if list_all is_digit t \<and> length t \<le> 15 then Num (Fin (int (nat_of_digits t)))
      else NumberOf s)"

text \<open>The conversion \<open>Number(v)\<close>.\<close>

fun Number :: "js_value \<Rightarrow> number_result" where
  "Number JUndefined = Num NaN"
| "Number JNull = Num (Fin 0)"
| "Number (JBool b) = (if b then Num (Fin 1) else Num (Fin 0))"
| "Number (JNum n) = Num n"
| "Number (JStr s) = string_to_number s"

section \<open>Host context, conversation and effects\<close>

text \<open>
  What can be thrown: an error object with its message (an \<open>Error\<close> or a
  \<open>TypeError\<close>), or any primitive value, \<open>null\<close> and \<open>undefined\<close> among them (a
  promise rejected without a reason throws \<open>undefined\<close> at its \<open>await\<close>).
\<close>

datatype js_error = Error string | TypeError string | Thrown js_value

text \<open>Reading a property of \<open>null\<close> or \<open>undefined\<close> throws a TypeError.\<close>

definition property_read_error :: "js_value \<Rightarrow> string \<Rightarrow> js_error" where
  "property_read_error v k =
     TypeError (''Cannot read properties of '' @ toString v @ '' (reading '' @ [CHR 0x27] @ k @ [CHR 0x27] @ '')'')"

text \<open>The read \<open>error.message\<close> in a handler: the message of an error object,
  \<open>undefined\<close> on a primitive, a TypeError on \<open>null\<close> and \<open>undefined\<close>.\<close>

fun read_message :: "js_error \<Rightarrow> js_error + js_value" where
  "read_message (Error m) = Inr (JStr m)"
| "read_message (TypeError m) = Inr (JStr m)"
| "read_message (Thrown JNull) = Inl (property_read_error JNull ''message'')"
| "read_message (Thrown JUndefined) = Inl (property_read_error JUndefined ''message'')"
| "read_message (Thrown v) = Inr JUndefined"

text \<open>The read \<open>error.stack\<close>, whose value only goes to the console: it returns, or
  throws on \<open>null\<close> and \<open>undefined\<close>.\<close>

fun read_stack :: "js_error \<Rightarrow> js_error + unit" where
  "read_stack (Error m) = Inr ()"
| "read_stack (TypeError m) = Inr ()"
| "read_stack (Thrown JNull) = Inl (property_read_error JNull ''stack'')"
| "read_stack (Thrown JUndefined) = Inl (property_read_error JUndefined ''stack'')"
| "read_stack (Thrown v) = Inr ()"

text \<open>The Generated Message built by \<open>buildAssistantMessage\<close>.\<close>

record message =
  is_user :: bool
  name :: js_value
  send_date :: nat
  mes :: string

text \<open>The argument object of \<open>generateQuietPrompt\<close>; \<open>maxTokens\<close> is \<open>None\<close>
  when the property is not passed.\<close>

record gen_args =
  quietPrompt :: string
  quietToLoud :: bool
  maxTokens :: "number_result option"

datatype event_type = MESSAGE_RECEIVED | CHARACTER_MESSAGE_RENDERED

text \<open>The calls a transition makes to its collaborators, in the order they happen.
  \<open>SdProbe\<close> marks an evaluation of \<open>isStableDiffusionAvailable\<close> and
  \<open>SdBackgroundClick\<close> the click on \<open>#sd_background\<close>.\<close>

datatype event =
    SubstituteParams string
  | GenerateQuietPrompt gen_args
  | Emit event_type nat
  | AddOneMessage message
  | SaveChat
  | SdProbe
  | SdBackgroundClick

text \<open>
  What \<open>getContext()\<close> and the page give the extension, apart from the chat. Each
  collaborator either returns (\<open>Inr\<close>) or throws (\<open>Inl\<close>); \<open>generateQuietPrompt\<close>
  may be missing from the context. \<open>charName\<close> is
  \<open>ctx.characters?.[ctx.characterId]?.name\<close> and \<open>now\<close> is \<open>Date.now()\<close>.
  Console and toast output is left out.
\<close>

record st_context =
  extensionSettings :: "(string \<rightharpoonup> js_object) option"
  generateQuietPrompt :: "(gen_args \<Rightarrow> js_error + js_value) option"
  substituteParams :: "string \<Rightarrow> js_error + string"
  emit :: "event_type \<Rightarrow> nat \<Rightarrow> js_error + unit"
  addOneMessage :: "message \<Rightarrow> js_error + unit"
  saveChat :: "js_error + unit"
  sd_background_click :: "js_error + unit"
  charName :: js_value
  now :: nat

text \<open>The mutable part: the in-memory chat and the trace of collaborator calls.\<close>

record world =
  chat :: "message list"
  trace :: "event list"

text \<open>A computation runs on a world and either returns or throws; the world it leaves
  behind is kept in both cases, as an exception does not undo a mutation.\<close>

type_synonym 'a js = "world \<Rightarrow> (js_error + 'a) \<times> world"

definition returnJ :: "'a \<Rightarrow> 'a js" where
  "returnJ x = (\<lambda>w. (Inr x, w))"

definition throwJ :: "js_error \<Rightarrow> 'a js" where
  "throwJ e = (\<lambda>w. (Inl e, w))"

definition bindJ :: "'a js \<Rightarrow> ('a \<Rightarrow> 'b js) \<Rightarrow> 'b js" where
  "bindJ m f = (\<lambda>w. case m w of (Inl e, w') \<Rightarrow> (Inl e, w') | (Inr x, w') \<Rightarrow> f x w')"

text \<open>\<open>try { m } catch (error) { h error }\<close>.\<close>

definition try_catch :: "'a js \<Rightarrow> (js_error \<Rightarrow> 'a js) \<Rightarrow> 'a js" where
  "try_catch m h = (\<lambda>w. case m w of (Inl e, w') \<Rightarrow> h e w' | (Inr x, w') \<Rightarrow> (Inr x, w'))"

text \<open>A step that touches no state: it returns or throws.\<close>

definition liftJ :: "js_error + 'a \<Rightarrow> 'a js" where
  "liftJ outcome = (\<lambda>w. (outcome, w))"

text \<open>A call to a collaborator is recorded in the trace, then returns or throws.\<close>

definition host_call :: "event \<Rightarrow> js_error + 'a \<Rightarrow> 'a js" where
  "host_call ev outcome = (\<lambda>w. (outcome, w\<lparr>trace := trace w @ [ev]\<rparr>))"

definition chat_push :: "message \<Rightarrow> unit js" where
  "chat_push msg = (\<lambda>w. (Inr (), w\<lparr>chat := chat w @ [msg]\<rparr>))"

definition chat_length :: "nat js" where
  "chat_length = (\<lambda>w. (Inr (length (chat w)), w))"

section \<open>Settings\<close>

definition EXTENSION_SETTINGS_KEY :: string where
  "EXTENSION_SETTINGS_KEY = ''scene-transition-settings''"

definition sceneChangeInstructions_default_A :: string where
  "sceneChangeInstructions_default_A = ''Write a scene transition, using the perspective of {{char}}. If the existing conversation indicates that the story hand reached the end of an event, describe the beginning of a new situation where {{char}} and {{user}} would interact again. Otherwise, transition {{char}} and {{user}} to a new location that would make sense. Describe the sight and sound of the new environment briefly, then have {{char}} start the interaction with {{user}} in this new setting. Do not write dialog for {{user}}. If the location change warrants a new outfit and there's logically a gap in the timeline where {{char}} could have changed, feel free to mention the outfit change briefly.''"

definition sceneChangeInstructions_default_B :: string where
  "sceneChangeInstructions_default_B = ''Write a scene transition in the perspective of {{char}}. If the current scene had reached its conclusion, describe the beginning of a new situation where {{char}} and {{user}} would interact again. Otherwise, transition {{char}} and {{user}} to a new location that would make sense. Describe the sight and sound of the new environment briefly, and insert a short description of a new outfit for {{char}} if this is a new situation,then have {{char}} start the interaction with {{user}} in this new setting. Do not write dialog for {{user}}.''"

text \<open>\<open>DEFAULT_SETTINGS\<close> of the variant with the availability probe (A) and of
  the variant without it (B).\<close>

definition DEFAULT_SETTINGS_A :: js_object where
  "DEFAULT_SETTINGS_A =
     [''sceneChangeInstructions'' \<mapsto> JStr sceneChangeInstructions_default_A,
      ''autoGenerateBackground'' \<mapsto> JBool False]"

definition DEFAULT_SETTINGS_B :: js_object where
  "DEFAULT_SETTINGS_B =
     [''sceneChangeInstructions'' \<mapsto> JStr sceneChangeInstructions_default_B,
      ''autoGenerateBackground'' \<mapsto> JBool False]"

text \<open>Reading \<open>ctx.extensionSettings[KEY]\<close> throws a TypeError when
  \<open>extensionSettings\<close> is undefined.\<close>

definition undefined_property_error :: "string \<Rightarrow> js_error" where
  "undefined_property_error k = property_read_error JUndefined k"

text \<open>\<open>{ ...DEFAULT_SETTINGS, ...userSettings }\<close> with
  \<open>userSettings = ctx.extensionSettings[KEY] || {}\<close>.\<close>

definition getSettings_A :: "st_context \<Rightarrow> js_object js" where
  "getSettings_A ctx =
     (case extensionSettings ctx of
        None \<Rightarrow> throwJ (undefined_property_error EXTENSION_SETTINGS_KEY)
      | Some es \<Rightarrow>
          (let userSettings = (case es EXTENSION_SETTINGS_KEY of None \<Rightarrow> Map.empty | Some u \<Rightarrow> u)
           in returnJ (DEFAULT_SETTINGS_A ++ userSettings)))"

definition getSettings_B :: "st_context \<Rightarrow> js_object js" where
  "getSettings_B ctx =
     (case extensionSettings ctx of
        None \<Rightarrow> throwJ (undefined_property_error EXTENSION_SETTINGS_KEY)
      | Some es \<Rightarrow>
          (let userSettings = (case es EXTENSION_SETTINGS_KEY of None \<Rightarrow> Map.empty | Some u \<Rightarrow> u)
           in returnJ (DEFAULT_SETTINGS_B ++ userSettings)))"

section \<open>The stable-diffusion probe and the background trigger\<close>

definition validSources :: "string list" where
  "validSources = [''extras'', ''horde'', ''auto'', ''vlad'', ''drawthings'', ''novel'', ''openai'',
     ''comfy'', ''togetherai'', ''pollinations'', ''stability'', ''huggingface'', ''nanogpt'', ''bfl'',
     ''falai'', ''xai'', ''google'']"

text \<open>\<open>isStableDiffusionAvailable\<close> (variant A only). Its first statement is the
  console line that announces the check; the trace records it as \<open>SdProbe\<close>.\<close>

definition isStableDiffusionAvailable :: "st_context \<Rightarrow> bool js" where
  "isStableDiffusionAvailable ctx =
     try_catch
       (bindJ (host_call SdProbe (Inr ())) (\<lambda>_.
          case extensionSettings ctx of
            None \<Rightarrow> returnJ False
          | Some es \<Rightarrow>
              (case es ''sd'' of
                 None \<Rightarrow> returnJ False
               | Some sd \<Rightarrow>
                   if \<not> truthy (getProp sd ''source'') then returnJ False
                   else returnJ (getProp sd ''source'' \<in> set (map JStr validSources)))))
       (\<lambda>error. returnJ False)"

text \<open>\<open>generateBackgroundImage\<close>: variant A catches the error of the click itself,
  logs it and its \<open>stack\<close>, and returns \<open>null\<close>; variant B lets it escape to its
  caller.\<close>

definition generateBackgroundImage_A :: "st_context \<Rightarrow> js_value js" where
  "generateBackgroundImage_A ctx =
     try_catch
       (bindJ (host_call SdBackgroundClick (sd_background_click ctx)) (\<lambda>_. returnJ JUndefined))
       (\<lambda>error. bindJ (liftJ (read_stack error)) (\<lambda>_. returnJ JNull))"

definition generateBackgroundImage_B :: "st_context \<Rightarrow> js_value js" where
  "generateBackgroundImage_B ctx =
     bindJ (host_call SdBackgroundClick (sd_background_click ctx)) (\<lambda>_. returnJ JUndefined)"

section \<open>Message insertion\<close>

definition buildAssistantMessage :: "st_context \<Rightarrow> string \<Rightarrow> message" where
  "buildAssistantMessage ctx text =
     \<lparr>is_user = False, name = charName ctx, send_date = now ctx, mes = text\<rparr>"

text \<open>\<open>insertAssistantMessage\<close>, the same in both variants: push, then notify, render,
  notify and save; the handler rethrows.\<close>

definition insertAssistantMessage :: "st_context \<Rightarrow> string \<Rightarrow> unit js" where
  "insertAssistantMessage ctx text =
     try_catch
       (let msg = buildAssistantMessage ctx text in
        bindJ (chat_push msg) (\<lambda>_.
        bindJ chat_length (\<lambda>len.
        let msgId = len - 1 in
        bindJ (host_call (Emit MESSAGE_RECEIVED msgId) (emit ctx MESSAGE_RECEIVED msgId)) (\<lambda>_.
        bindJ (host_call (AddOneMessage msg) (addOneMessage ctx msg)) (\<lambda>_.
        bindJ (host_call (Emit CHARACTER_MESSAGE_RENDERED msgId) (emit ctx CHARACTER_MESSAGE_RENDERED msgId)) (\<lambda>_.
        host_call SaveChat (saveChat ctx)))))))
       (\<lambda>error. throwJ error)"

section \<open>Generation\<close>

text \<open>The result of the backend, trimmed:
  \<open>typeof result === 'string' ? result.trim() : String(result ?? '').trim()\<close>.\<close>

definition finalResult :: "js_value \<Rightarrow> string" where
  "finalResult result =
     (case result of
        JStr s \<Rightarrow> trim s
      | JUndefined \<Rightarrow> trim (toString (JStr []))
      | JNull \<Rightarrow> trim (toString (JStr []))
      | _ \<Rightarrow> trim (toString result))"

subsection \<open>Variant A: note, style and token budget\<close>

text \<open>The placeholder of variant A, the same template literal in the unavailable
  branch and in the handler.\<close>

definition testMessage_A :: "js_value \<Rightarrow> js_value \<Rightarrow> string" where
  "testMessage_A instruction style =
     ''[DEBUG] Scene transition test - '' @ toString (js_or instruction (JStr ''no instruction''))
       @ '' '' @ (if truthy style then ''(style: '' @ toString style @ '')'' else [])"

text \<open>The directive handed to \<open>substituteParams\<close>.\<close>

definition quietPrompt_A :: "js_value \<Rightarrow> js_value \<Rightarrow> js_value \<Rightarrow> string" where
  "quietPrompt_A sceneChangeInstructions style instruction =
     ''[OOC Scene Direction]'' @ [newline]
       @ toString sceneChangeInstructions @ [newline]
       @ (if truthy style then ''Style hint: '' @ toString style else []) @ [newline]
       @ (if truthy instruction then ''Scene notes: '' @ toString instruction else []) @ [newline]
       @ ''Return only the character's spoken or internal line (no extra narrative).''"

definition generateSceneLine_body_A :: "st_context \<Rightarrow> js_value \<Rightarrow> js_value \<Rightarrow> js_value \<Rightarrow> string js" where
  "generateSceneLine_body_A ctx instruction style maxTokensArg =
     (case generateQuietPrompt ctx of
        None \<Rightarrow> returnJ (testMessage_A instruction style)
      | Some generate \<Rightarrow>
          bindJ (getSettings_A ctx) (\<lambda>settings.
          let sceneChangeInstructions =
                js_or (getProp settings ''sceneChangeInstructions'')
                      (getProp DEFAULT_SETTINGS_A ''sceneChangeInstructions'');
              directive = quietPrompt_A sceneChangeInstructions style instruction
          in
          bindJ (host_call (SubstituteParams directive) (substituteParams ctx directive)) (\<lambda>prompt.
          let args = \<lparr>quietPrompt = prompt, quietToLoud = True,
                      maxTokens = Some (if truthy maxTokensArg then Number maxTokensArg else Num (Fin 120))\<rparr>
          in
          bindJ (host_call (GenerateQuietPrompt args) (generate args)) (\<lambda>result.
          returnJ (finalResult result)))))"

definition generateSceneLine_A :: "st_context \<Rightarrow> js_value \<Rightarrow> js_value \<Rightarrow> js_value \<Rightarrow> string js" where
  "generateSceneLine_A ctx instruction style maxTokensArg =
     try_catch (generateSceneLine_body_A ctx instruction style maxTokensArg)
       (\<lambda>error. returnJ (testMessage_A instruction style))"

subsection \<open>Variant B: no parameters\<close>

definition generateSceneLine_body_B :: "st_context \<Rightarrow> string js" where
  "generateSceneLine_body_B ctx =
     (case generateQuietPrompt ctx of
        None \<Rightarrow> returnJ ''[DEBUG] Scene transition failed''
      | Some generate \<Rightarrow>
          bindJ (getSettings_B ctx) (\<lambda>settings.
          let sceneChangeInstructions =
                js_or (getProp settings ''sceneChangeInstructions'')
                      (getProp DEFAULT_SETTINGS_B ''sceneChangeInstructions'');
              directive = toString sceneChangeInstructions
          in
          bindJ (host_call (SubstituteParams directive) (substituteParams ctx directive)) (\<lambda>prompt.
          let args = \<lparr>quietPrompt = prompt, quietToLoud = True, maxTokens = None\<rparr>
          in
          bindJ (host_call (GenerateQuietPrompt args) (generate args)) (\<lambda>result.
          returnJ (finalResult result)))))"

text \<open>The handler of variant B builds its placeholder from \<open>error.message\<close>.\<close>

definition generateSceneLine_B :: "st_context \<Rightarrow> string js" where
  "generateSceneLine_B ctx =
     try_catch (generateSceneLine_body_B ctx)
       (\<lambda>error. bindJ (liftJ (read_message error)) (\<lambda>msg.
          returnJ (''[DEBUG] Scene transition failed: '' @ toString msg)))"

section \<open>The transition\<close>

text \<open>The note: \<open>typeof unnamed === 'string' && unnamed.trim() ? unnamed : "Allow ..."\<close>.\<close>

definition default_instruction :: string where
  "default_instruction = ''Allow the character to transition to a new scene that makes sense.''"

definition resolve_instruction :: "js_value \<Rightarrow> js_value" where
  "resolve_instruction unnamed =
     (case unnamed of
        JStr s \<Rightarrow> if truthy (JStr (trim s)) then unnamed else JStr default_instruction
      | _ \<Rightarrow> JStr default_instruction)"

text \<open>\<open>named?.style || undefined\<close> and \<open>named?.max || "120"\<close>.\<close>

definition resolve_style :: "js_object option \<Rightarrow> js_value" where
  "resolve_style named = js_or (optProp named ''style'') JUndefined"

definition resolve_max :: "js_object option \<Rightarrow> js_value" where
  "resolve_max named = js_or (optProp named ''max'') (JStr ''120'')"

text \<open>The explicit flag. Variant A takes the raw value of \<open>named.background\<close>,
  variant B compares it with the string \<open>'true'\<close>.\<close>

definition generateBg_A :: "js_object option \<Rightarrow> js_value" where
  "generateBg_A named =
     (if optProp named ''background'' \<noteq> JUndefined then optProp named ''background'' else JUndefined)"

definition generateBg_B :: "js_object option \<Rightarrow> js_value" where
  "generateBg_B named =
     (if optProp named ''background'' \<noteq> JUndefined then JBool (optProp named ''background'' = JStr ''true'')
      else JUndefined)"

text \<open>The trigger decision, the \<open>if (generateBg !== undefined) ... else ...\<close> block
  of each variant.\<close>

definition shouldGenerateBackground_A :: "js_value \<Rightarrow> js_object \<Rightarrow> bool \<Rightarrow> js_value" where
  "shouldGenerateBackground_A generateBg settings isSDAvailable =
     (if generateBg \<noteq> JUndefined then generateBg
      else js_and (getProp settings ''autoGenerateBackground'') (JBool isSDAvailable))"

definition shouldGenerateBackground_B :: "js_value \<Rightarrow> js_object \<Rightarrow> js_value" where
  "shouldGenerateBackground_B generateBg settings =
     (if generateBg \<noteq> JUndefined then generateBg
      else getProp settings ''autoGenerateBackground'')"

subsection \<open>Variant A\<close>

definition sceneTransitionCallback_body_A :: "st_context \<Rightarrow> js_object option \<Rightarrow> js_value \<Rightarrow> string js" where
  "sceneTransitionCallback_body_A ctx named unnamed =
     (let instruction = resolve_instruction unnamed;
          style = resolve_style named;
          maxArg = resolve_max named;
          generateBg = generateBg_A named
      in
      bindJ (generateSceneLine_A ctx instruction style maxArg) (\<lambda>line.
      if truthy (JStr line) then
        bindJ (insertAssistantMessage ctx line) (\<lambda>_.
        bindJ (getSettings_A ctx) (\<lambda>settings.
        bindJ (isStableDiffusionAvailable ctx) (\<lambda>isSDAvailable.
        let shouldGenerateBackground = shouldGenerateBackground_A generateBg settings isSDAvailable in
        bindJ (if truthy shouldGenerateBackground
               then try_catch (bindJ (generateBackgroundImage_A ctx) (\<lambda>backgroundResult. returnJ ()))
                      (\<lambda>error. liftJ (read_stack error))
               else returnJ ()) (\<lambda>_.
        returnJ ''Scene line inserted.''))))
      else returnJ ''No output generated.''))"

text \<open>The top-level handler of variant A logs the error and its \<open>stack\<close>, then
  returns \<open>`Error: ${error.message}`\<close>.\<close>

definition sceneTransitionCallback_A :: "st_context \<Rightarrow> js_object option \<Rightarrow> js_value \<Rightarrow> string js" where
  "sceneTransitionCallback_A ctx named unnamed =
     try_catch (sceneTransitionCallback_body_A ctx named unnamed)
       (\<lambda>error. bindJ (liftJ (read_stack error)) (\<lambda>_.
          bindJ (liftJ (read_message error)) (\<lambda>msg.
          returnJ (''Error: '' @ toString msg))))"

subsection \<open>Variant B\<close>

definition sceneTransitionCallback_body_B :: "st_context \<Rightarrow> js_object option \<Rightarrow> js_value \<Rightarrow> string js" where
  "sceneTransitionCallback_body_B ctx named unnamed =
     (let generateBg = generateBg_B named
      in
      bindJ (generateSceneLine_B ctx) (\<lambda>line.
      if truthy (JStr line) then
        bindJ (insertAssistantMessage ctx line) (\<lambda>_.
        bindJ (getSettings_B ctx) (\<lambda>settings.
        let shouldGenerateBackground = shouldGenerateBackground_B generateBg settings in
        bindJ (if truthy shouldGenerateBackground
               then try_catch (bindJ (generateBackgroundImage_B ctx) (\<lambda>backgroundResult. returnJ ()))
                      (\<lambda>error. returnJ ())
               else returnJ ()) (\<lambda>_.
        returnJ ''Scene line inserted.'')))
      else returnJ ''No output generated.''))"

text \<open>The top-level handler of variant B returns \<open>`Error: ${error.message}`\<close>.\<close>

definition sceneTransitionCallback_B :: "st_context \<Rightarrow> js_object option \<Rightarrow> js_value \<Rightarrow> string js" where
  "sceneTransitionCallback_B ctx named unnamed =
     try_catch (sceneTransitionCallback_body_B ctx named unnamed)
       (\<lambda>error. bindJ (liftJ (read_message error)) (\<lambda>msg.
          returnJ (''Error: '' @ toString msg)))"

section \<open>Observing a run\<close>

text \<open>The thrown values on which a handler cannot read a property.\<close>

definition thrown_nullish :: "js_error \<Rightarrow> bool" where
  "thrown_nullish e = (e = Thrown JNull \<or> e = Thrown JUndefined)"

text \<open>What the top-level handler of each variant makes of an error: variant A reads
  \<open>error.stack\<close> and then \<open>error.message\<close>, variant B reads \<open>error.message\<close>.\<close>

definition top_outcome_A :: "js_error \<Rightarrow> js_error + string" where
  "top_outcome_A e =
     (case read_stack e of
        Inl e' \<Rightarrow> Inl e'
      | Inr _ \<Rightarrow> (case read_message e of Inl e' \<Rightarrow> Inl e' | Inr m \<Rightarrow> Inr (''Error: '' @ toString m)))"

definition top_outcome_B :: "js_error \<Rightarrow> js_error + string" where
  "top_outcome_B e =
     (case read_message e of Inl e' \<Rightarrow> Inl e' | Inr m \<Rightarrow> Inr (''Error: '' @ toString m))"

text \<open>The trace entries that generation leaves: the calls to \<open>substituteParams\<close> and
  to \<open>generateQuietPrompt\<close>.\<close>

fun generation_event :: "event \<Rightarrow> bool" where
  "generation_event (SubstituteParams d) = True"
| "generation_event (GenerateQuietPrompt args) = True"
| "generation_event ev = False"

text \<open>The instructions a settings object resolves to:
  \<open>settings.sceneChangeInstructions || DEFAULT_SETTINGS.sceneChangeInstructions\<close>
  on the merged settings.\<close>

definition userSettings_of :: "(string \<rightharpoonup> js_object) \<Rightarrow> js_object" where
  "userSettings_of es = (case es EXTENSION_SETTINGS_KEY of None \<Rightarrow> Map.empty | Some u \<Rightarrow> u)"

definition instructions_A :: "(string \<rightharpoonup> js_object) \<Rightarrow> js_value" where
  "instructions_A es =
     js_or (getProp (DEFAULT_SETTINGS_A ++ userSettings_of es) ''sceneChangeInstructions'')
           (getProp DEFAULT_SETTINGS_A ''sceneChangeInstructions'')"

definition instructions_B :: "(string \<rightharpoonup> js_object) \<Rightarrow> js_value" where
  "instructions_B es =
     js_or (getProp (DEFAULT_SETTINGS_B ++ userSettings_of es) ''sceneChangeInstructions'')
           (getProp DEFAULT_SETTINGS_B ''sceneChangeInstructions'')"

text \<open>What the probe answers on a context: the value \<open>isStableDiffusionAvailable\<close>
  returns.\<close>

definition probe_answer :: "st_context \<Rightarrow> bool" where
  "probe_answer ctx =
     (case extensionSettings ctx of
        None \<Rightarrow> False
      | Some es \<Rightarrow>
          (case es ''sd'' of
             None \<Rightarrow> False
           | Some sd \<Rightarrow> truthy (getProp sd ''source'') \<and> getProp sd ''source'' \<in> set (map JStr validSources)))"

text \<open>The trace entries of a successful insertion of the message with index \<open>msgId\<close>.\<close>

definition insertion_events :: "message \<Rightarrow> nat \<Rightarrow> event list" where
  "insertion_events msg msgId =
     [Emit MESSAGE_RECEIVED msgId, AddOneMessage msg, Emit CHARACTER_MESSAGE_RENDERED msgId, SaveChat]"

text \<open>A computation \<open>emits P\<close> when, from every world, it only appends to the trace, and
  every entry it appends satisfies \<open>P\<close>.\<close>

definition emits :: "(event \<Rightarrow> bool) \<Rightarrow> 'a js \<Rightarrow> bool" where
  "emits P m = (\<forall>w. \<exists>evs. trace (snd (m w)) = trace w @ evs \<and> list_all P evs)"

section \<open>Example hosts\<close>

text \<open>Concrete collaborators, used to run the transition on explicit inputs.\<close>

definition backend_hello :: "gen_args \<Rightarrow> js_error + js_value" where
  "backend_hello args = Inr (JStr '' Hello there. '')"

definition backend_blank :: "gen_args \<Rightarrow> js_error + js_value" where
  "backend_blank args = Inr (JStr ''   '')"




definition emit_ok :: "event_type \<Rightarrow> nat \<Rightarrow> js_error + unit" where
  "emit_ok t msgId = Inr ()"

definition addOneMessage_ok :: "message \<Rightarrow> js_error + unit" where
  "addOneMessage_ok msg = Inr ()"

text \<open>A host where every collaborator succeeds, the auto-trigger setting is on and an
  image backend is configured.\<close>

definition example_extensionSettings :: "string \<rightharpoonup> js_object" where
  "example_extensionSettings =
     [EXTENSION_SETTINGS_KEY \<mapsto>
        [''sceneChangeInstructions'' \<mapsto> JStr ''Move on.'',
         ''autoGenerateBackground'' \<mapsto> JBool True],
      ''sd'' \<mapsto> [''source'' \<mapsto> JStr ''horde'']]"

definition example_ctx :: st_context where
  "example_ctx =
     \<lparr>extensionSettings = Some example_extensionSettings,
      generateQuietPrompt = Some backend_hello,
      substituteParams = Inr,
      emit = emit_ok,
      addOneMessage = addOneMessage_ok,
      saveChat = Inr (),
      sd_background_click = Inr (),
      charName = JStr ''Seraphina'',
      now = 1700000000\<rparr>"

definition example_world :: world where
  "example_world = \<lparr>chat = [], trace = []\<rparr>"


section \<open>Basic facts\<close>

lemmas js_defs = bindJ_def try_catch_def host_call_def liftJ_def returnJ_def throwJ_def chat_push_def chat_length_def

lemma try_catch_caught:
  "fst (m w) = Inl e \<Longrightarrow> try_catch m h w = h e (snd (m w))"
  by (cases "m w") (simp add: try_catch_def)

lemma try_catch_returned:
  "fst (m w) = Inr x \<Longrightarrow> try_catch m h w = (Inr x, snd (m w))"
  by (cases "m w") (simp add: try_catch_def)

lemma bindJ_thrown:
  "fst (m w) = Inl e \<Longrightarrow> bindJ m f w = (Inl e, snd (m w))"
  by (cases "m w") (simp add: bindJ_def)

lemma bindJ_returned:
  "fst (m w) = Inr x \<Longrightarrow> bindJ m f w = f x (snd (m w))"
  by (cases "m w") (simp add: bindJ_def)

lemma try_catch_bindJ_returned:
  "fst (m w) = Inr x \<Longrightarrow> try_catch (bindJ m f) h w = try_catch (f x) h (snd (m w))"
  by (cases "m w") (simp add: try_catch_def bindJ_def)

lemma try_catch_bindJ_thrown:
  "fst (m w) = Inl e \<Longrightarrow> try_catch (bindJ m f) h w = h e (snd (m w))"
  by (cases "m w") (simp add: try_catch_def bindJ_def)

subsection \<open>Reading a property of a thrown value\<close>


lemma read_stack_nullish:
  "thrown_nullish e \<Longrightarrow> \<exists>v. read_stack e = Inl (property_read_error v ''stack'')"
  by (auto simp: thrown_nullish_def)


lemma read_stack_returns:
  "\<not> thrown_nullish e \<Longrightarrow> read_stack e = Inr ()"
  by (cases e rule: read_stack.cases) (simp_all add: thrown_nullish_def)

lemma read_message_Inr_iff:
  "(\<exists>m. read_message e = Inr m) = (\<not> thrown_nullish e)"
  by (cases e rule: read_message.cases) (simp_all add: thrown_nullish_def)

lemma read_stack_of_message:
  "read_message e = Inr m \<Longrightarrow> read_stack e = Inr ()"
  using read_message_Inr_iff read_stack_returns by blast

lemma property_read_error_message [simp]:
  "read_message (property_read_error v k) = Inr (JStr (''Cannot read properties of '' @ toString v @ '' (reading '' @ [CHR 0x27] @ k @ [CHR 0x27] @ '')''))"
  "read_stack (property_read_error v k) = Inr ()"
  "\<not> thrown_nullish (property_read_error v k)"
  by (simp_all add: property_read_error_def thrown_nullish_def)

text \<open>The top-level handlers, run on an error.\<close>

lemma top_handler_A:
  "read_message e = Inr m \<Longrightarrow>
     (bindJ (liftJ (read_stack e)) (\<lambda>_. bindJ (liftJ (read_message e)) (\<lambda>msg. returnJ (''Error: '' @ toString msg)))) w
       = (Inr (''Error: '' @ toString m), w)"
  by (simp add: read_stack_of_message js_defs)

lemma top_handler_B:
  "read_message e = Inr m \<Longrightarrow>
     (bindJ (liftJ (read_message e)) (\<lambda>msg. returnJ (''Error: '' @ toString msg))) w
       = (Inr (''Error: '' @ toString m), w)"
  by (simp add: js_defs)

lemma top_handler_A_nullish:
  "read_stack e = Inl e' \<Longrightarrow>
     (bindJ (liftJ (read_stack e)) (\<lambda>_. bindJ (liftJ (read_message e)) (\<lambda>msg. returnJ (''Error: '' @ toString msg)))) w
       = (Inl e', w)"
  by (simp add: js_defs)

lemma top_handler_B_nullish:
  "read_message e = Inl e' \<Longrightarrow>
     (bindJ (liftJ (read_message e)) (\<lambda>msg. returnJ (''Error: '' @ toString msg))) w
       = (Inl e', w)"
  by (simp add: js_defs)

subsection \<open>Insertion\<close>

lemma insertAssistantMessage_chat:
  "chat (snd (insertAssistantMessage ctx text w)) = chat w @ [buildAssistantMessage ctx text]"
  by (simp add: insertAssistantMessage_def js_defs Let_def split: sum.splits prod.splits)

lemma insertAssistantMessage_result:
  "fst (insertAssistantMessage ctx text w) =
     (case emit ctx MESSAGE_RECEIVED (length (chat w)) of
        Inl e \<Rightarrow> Inl e
      | Inr _ \<Rightarrow>
          (case addOneMessage ctx (buildAssistantMessage ctx text) of
             Inl e \<Rightarrow> Inl e
           | Inr _ \<Rightarrow>
               (case emit ctx CHARACTER_MESSAGE_RENDERED (length (chat w)) of
                  Inl e \<Rightarrow> Inl e
                | Inr _ \<Rightarrow> saveChat ctx)))"
  by (simp add: insertAssistantMessage_def js_defs Let_def split: sum.splits prod.splits)

subsection \<open>Generation\<close>

lemma generateSceneLine_A_returns:
  "\<exists>s. fst (generateSceneLine_A ctx i st m w) = Inr s"
  by (simp add: generateSceneLine_A_def try_catch_def returnJ_def split: sum.splits prod.splits)

lemma generateSceneLine_A_chat:
  "chat (snd (generateSceneLine_A ctx i st m w)) = chat w"
  by (simp add: generateSceneLine_A_def generateSceneLine_body_A_def getSettings_A_def js_defs Let_def
        split: sum.splits prod.splits option.splits)

lemma generateSceneLine_B_world:
  "snd (generateSceneLine_B ctx w) = snd (generateSceneLine_body_B ctx w)"
proof (cases "generateSceneLine_body_B ctx w")
  case (Pair r w')
  then show ?thesis
    by (cases r; cases "read_message (projl r)") (simp_all add: generateSceneLine_B_def js_defs)
qed


lemma generateSceneLine_body_B_chat:
  "chat (snd (generateSceneLine_body_B ctx w)) = chat w"
  by (simp add: generateSceneLine_body_B_def getSettings_B_def js_defs Let_def
        split: sum.splits prod.splits option.splits)

lemma generateSceneLine_B_chat:
  "chat (snd (generateSceneLine_B ctx w)) = chat w"
  by (simp add: generateSceneLine_B_world generateSceneLine_body_B_chat)


subsection \<open>The body of the transition\<close>




section \<open>After a successful insertion\<close>

lemma isStableDiffusionAvailable_run:
  "isStableDiffusionAvailable ctx w = (Inr (probe_answer ctx), w\<lparr>trace := trace w @ [SdProbe]\<rparr>)"
  by (simp add: isStableDiffusionAvailable_def probe_answer_def js_defs split: option.splits)

lemma insertAssistantMessage_success:
  assumes "fst (insertAssistantMessage ctx text w) = Inr ()"
  shows "insertAssistantMessage ctx text w =
           (Inr (), w\<lparr>chat := chat w @ [buildAssistantMessage ctx text],
                      trace := trace w @ insertion_events (buildAssistantMessage ctx text) (length (chat w))\<rparr>)"
  using assms
  by (simp add: insertAssistantMessage_def insertion_events_def js_defs Let_def split: sum.splits prod.splits)

lemma getSettings_A_run:
  "extensionSettings ctx = Some es \<Longrightarrow>
     getSettings_A ctx w = (Inr (DEFAULT_SETTINGS_A ++ userSettings_of es), w)"
  by (simp add: getSettings_A_def userSettings_of_def returnJ_def)

lemma getSettings_B_run:
  "extensionSettings ctx = Some es \<Longrightarrow>
     getSettings_B ctx w = (Inr (DEFAULT_SETTINGS_B ++ userSettings_of es), w)"
  by (simp add: getSettings_B_def userSettings_of_def returnJ_def)



text \<open>The click is recorded in both variants. Variant A catches its error and reads
  the \<open>stack\<close> of it, which throws a TypeError on \<open>null\<close> and \<open>undefined\<close>; variant
  B passes the error on.\<close>

lemma generateBackgroundImage_A_run:
  "generateBackgroundImage_A ctx w =
     ((case sd_background_click ctx of
         Inr _ \<Rightarrow> Inr JUndefined
       | Inl e \<Rightarrow> (case read_stack e of Inl e' \<Rightarrow> Inl e' | Inr _ \<Rightarrow> Inr JNull)),
      w\<lparr>trace := trace w @ [SdBackgroundClick]\<rparr>)"
  by (simp add: generateBackgroundImage_A_def js_defs split: sum.splits)

lemma generateBackgroundImage_A_raises:
  "fst (generateBackgroundImage_A ctx w) = Inl e' \<Longrightarrow> read_stack e' = Inr ()"
proof -
  assume a: "fst (generateBackgroundImage_A ctx w) = Inl e'"
  then obtain e where e: "sd_background_click ctx = Inl e" "read_stack e = Inl e'"
    by (auto simp: generateBackgroundImage_A_run split: sum.splits)
  then have "thrown_nullish e"
    using read_stack_returns by fastforce
  from read_stack_nullish [OF this] e show ?thesis
    by auto
qed

lemma generateBackgroundImage_B_run:
  "generateBackgroundImage_B ctx w =
     ((case sd_background_click ctx of Inl e \<Rightarrow> Inl e | Inr _ \<Rightarrow> Inr JUndefined),
      w\<lparr>trace := trace w @ [SdBackgroundClick]\<rparr>)"
  by (simp add: generateBackgroundImage_B_def js_defs split: sum.splits)

text \<open>The trigger step of the callback, in both variants: the click is recorded and the
  step returns, whatever the click did. In variant A the outer handler reads the
  \<open>stack\<close> of what \<open>generateBackgroundImage\<close> threw, which is a TypeError.\<close>

lemma trigger_step_A:
  "try_catch (bindJ (generateBackgroundImage_A ctx) (\<lambda>backgroundResult. returnJ ())) (\<lambda>error. liftJ (read_stack error))
     = (\<lambda>w. (Inr (), w\<lparr>trace := trace w @ [SdBackgroundClick]\<rparr>))"
proof (rule ext)
  fix w
  have w': "snd (generateBackgroundImage_A ctx w) = w\<lparr>trace := trace w @ [SdBackgroundClick]\<rparr>"
    by (simp add: generateBackgroundImage_A_run)
  show "try_catch (bindJ (generateBackgroundImage_A ctx) (\<lambda>backgroundResult. returnJ ())) (\<lambda>error. liftJ (read_stack error)) w
     = (Inr (), w\<lparr>trace := trace w @ [SdBackgroundClick]\<rparr>)"
  proof (cases "fst (generateBackgroundImage_A ctx w)")
    case (Inl e')
    have "try_catch (bindJ (generateBackgroundImage_A ctx) (\<lambda>backgroundResult. returnJ ())) (\<lambda>error. liftJ (read_stack error)) w
        = liftJ (read_stack e') (snd (generateBackgroundImage_A ctx w))"
      using Inl by (rule try_catch_bindJ_thrown)
    with generateBackgroundImage_A_raises [OF Inl] show ?thesis
      by (simp add: liftJ_def w')
  next
    case (Inr r)
    have "try_catch (bindJ (generateBackgroundImage_A ctx) (\<lambda>backgroundResult. returnJ ())) (\<lambda>error. liftJ (read_stack error)) w
        = try_catch (returnJ ()) (\<lambda>error. liftJ (read_stack error)) (snd (generateBackgroundImage_A ctx w))"
      using Inr by (rule try_catch_bindJ_returned)
    then show ?thesis
      by (simp add: try_catch_def returnJ_def w')
  qed
qed

lemma trigger_step_B:
  "try_catch (bindJ (generateBackgroundImage_B ctx) (\<lambda>backgroundResult. returnJ ())) (\<lambda>error. returnJ ())
     = (\<lambda>w. (Inr (), w\<lparr>trace := trace w @ [SdBackgroundClick]\<rparr>))"
  by (rule ext) (simp add: generateBackgroundImage_B_run bindJ_def try_catch_def returnJ_def split: sum.splits)

lemma callback_A_inserted:
  assumes gen: "fst (generateSceneLine_A ctx (resolve_instruction unnamed) (resolve_style named) (resolve_max named) w) = Inr line"
    and line: "line \<noteq> []"
    and ins: "fst (insertAssistantMessage ctx line
                (snd (generateSceneLine_A ctx (resolve_instruction unnamed) (resolve_style named) (resolve_max named) w))) = Inr ()"
    and es: "extensionSettings ctx = Some es"
  shows "sceneTransitionCallback_A ctx named unnamed w =
           (Inr ''Scene line inserted.'',
            (snd (insertAssistantMessage ctx line
                (snd (generateSceneLine_A ctx (resolve_instruction unnamed) (resolve_style named) (resolve_max named) w))))
              \<lparr>trace := trace (snd (insertAssistantMessage ctx line
                (snd (generateSceneLine_A ctx (resolve_instruction unnamed) (resolve_style named) (resolve_max named) w))))
                 @ SdProbe #
                 (if truthy (shouldGenerateBackground_A (generateBg_A named)
                               (DEFAULT_SETTINGS_A ++ userSettings_of es) (probe_answer ctx))
                  then [SdBackgroundClick] else [])\<rparr>)" (is "_ = ?rhs")
proof -
  let ?gen = "generateSceneLine_A ctx (resolve_instruction unnamed) (resolve_style named) (resolve_max named)"
  have 1: "bindJ ?gen f w = f line (snd (?gen w))" for f :: "string \<Rightarrow> string js"
    using gen by (rule bindJ_returned)
  have 2: "bindJ (insertAssistantMessage ctx line) f (snd (?gen w))
             = f () (snd (insertAssistantMessage ctx line (snd (?gen w))))" for f :: "unit \<Rightarrow> string js"
    using ins by (rule bindJ_returned)
  have "sceneTransitionCallback_body_A ctx named unnamed w = ?rhs"
    using line
    by (simp add: sceneTransitionCallback_body_A_def Let_def 1 2 trigger_step_A cong: if_cong)
       (simp add: getSettings_A_run [OF es] isStableDiffusionAvailable_run bindJ_def returnJ_def)
  then show ?thesis
    by (simp add: sceneTransitionCallback_A_def try_catch_returned)
qed

lemma callback_B_inserted:
  assumes gen: "fst (generateSceneLine_B ctx w) = Inr line"
    and line: "line \<noteq> []"
    and ins: "fst (insertAssistantMessage ctx line (snd (generateSceneLine_B ctx w))) = Inr ()"
    and es: "extensionSettings ctx = Some es"
  shows "sceneTransitionCallback_B ctx named unnamed w =
           (Inr ''Scene line inserted.'',
            (snd (insertAssistantMessage ctx line (snd (generateSceneLine_B ctx w))))
              \<lparr>trace := trace (snd (insertAssistantMessage ctx line (snd (generateSceneLine_B ctx w))))
                 @ (if truthy (shouldGenerateBackground_B (generateBg_B named)
                               (DEFAULT_SETTINGS_B ++ userSettings_of es))
                  then [SdBackgroundClick] else [])\<rparr>)" (is "_ = ?rhs")
proof -
  have 1: "bindJ (generateSceneLine_B ctx) f w = f line (snd (generateSceneLine_B ctx w))"
    for f :: "string \<Rightarrow> string js"
    using gen by (rule bindJ_returned)
  have 2: "bindJ (insertAssistantMessage ctx line) f (snd (generateSceneLine_B ctx w))
             = f () (snd (insertAssistantMessage ctx line (snd (generateSceneLine_B ctx w))))"
    for f :: "unit \<Rightarrow> string js"
    using ins by (rule bindJ_returned)
  have "sceneTransitionCallback_body_B ctx named unnamed w = ?rhs"
    using line
    by (simp add: sceneTransitionCallback_body_B_def Let_def 1 2 trigger_step_B cong: if_cong)
       (simp add: getSettings_B_run [OF es] bindJ_def returnJ_def)
  then show ?thesis
    by (simp add: sceneTransitionCallback_B_def try_catch_returned)
qed

lemma getSettings_ignore_click:
  "getSettings_A (ctx\<lparr>sd_background_click := c\<rparr>) = getSettings_A ctx"
  "getSettings_B (ctx\<lparr>sd_background_click := c\<rparr>) = getSettings_B ctx"
  by (simp_all add: getSettings_A_def getSettings_B_def)

lemma generateSceneLine_ignore_click:
  "generateSceneLine_A (ctx\<lparr>sd_background_click := c\<rparr>) = generateSceneLine_A ctx"
  "generateSceneLine_B (ctx\<lparr>sd_background_click := c\<rparr>) = generateSceneLine_B ctx"
  by (intro ext, simp add: generateSceneLine_A_def generateSceneLine_body_A_def getSettings_ignore_click
        cong: option.case_cong)
     (intro ext, simp add: generateSceneLine_B_def generateSceneLine_body_B_def getSettings_ignore_click
        cong: option.case_cong)

lemma insertAssistantMessage_ignore_click:
  "insertAssistantMessage (ctx\<lparr>sd_background_click := c\<rparr>) = insertAssistantMessage ctx"
  by (intro ext) (simp add: insertAssistantMessage_def buildAssistantMessage_def)

lemma isStableDiffusionAvailable_ignore_click:
  "isStableDiffusionAvailable (ctx\<lparr>sd_background_click := c\<rparr>) = isStableDiffusionAvailable ctx"
  by (simp add: isStableDiffusionAvailable_def)

lemma callback_A_ignores_click_outcome:
  "sceneTransitionCallback_A (ctx\<lparr>sd_background_click := c\<rparr>) named unnamed
     = sceneTransitionCallback_A ctx named unnamed"
  by (simp add: sceneTransitionCallback_A_def sceneTransitionCallback_body_A_def trigger_step_A
        generateSceneLine_ignore_click getSettings_ignore_click insertAssistantMessage_ignore_click
        isStableDiffusionAvailable_ignore_click cong: if_cong)

lemma callback_B_ignores_click_outcome:
  "sceneTransitionCallback_B (ctx\<lparr>sd_background_click := c\<rparr>) named unnamed
     = sceneTransitionCallback_B ctx named unnamed"
  by (simp add: sceneTransitionCallback_B_def sceneTransitionCallback_body_B_def trigger_step_B
        generateSceneLine_ignore_click getSettings_ignore_click insertAssistantMessage_ignore_click
        cong: if_cong)


section \<open>After generation\<close>

lemma top_handler_A_run:
  "(bindJ (liftJ (read_stack e)) (\<lambda>_. bindJ (liftJ (read_message e)) (\<lambda>msg. returnJ (''Error: '' @ toString msg)))) w
     = (top_outcome_A e, w)"
  by (simp add: top_outcome_A_def js_defs split: sum.splits)

lemma top_handler_B_run:
  "(bindJ (liftJ (read_message e)) (\<lambda>msg. returnJ (''Error: '' @ toString msg))) w
     = (top_outcome_B e, w)"
  by (simp add: top_outcome_B_def js_defs split: sum.splits)


lemma top_outcome_nullish:
  "thrown_nullish e \<Longrightarrow> \<exists>v. top_outcome_A e = Inl (property_read_error v ''stack'')"
  "thrown_nullish e \<Longrightarrow> \<exists>v. top_outcome_B e = Inl (property_read_error v ''message'')"
  by (auto simp: top_outcome_A_def top_outcome_B_def thrown_nullish_def)


text \<open>The callback is its handler around its body.\<close>

lemma callback_A_of_body:
  "sceneTransitionCallback_A ctx named unnamed w =
     (case fst (sceneTransitionCallback_body_A ctx named unnamed w) of
        Inr s \<Rightarrow> Inr s
      | Inl e \<Rightarrow> top_outcome_A e,
      snd (sceneTransitionCallback_body_A ctx named unnamed w))"
proof (cases "fst (sceneTransitionCallback_body_A ctx named unnamed w)")
  case (Inl e)
  then show ?thesis
    unfolding sceneTransitionCallback_A_def
    by (simp only: try_catch_caught [where m = "sceneTransitionCallback_body_A ctx named unnamed" and w = w, OF Inl] top_handler_A_run sum.case)
next
  case (Inr s)
  then show ?thesis
    unfolding sceneTransitionCallback_A_def
    by (simp only: try_catch_returned [where m = "sceneTransitionCallback_body_A ctx named unnamed" and w = w, OF Inr] sum.case)
qed

lemma callback_B_of_body:
  "sceneTransitionCallback_B ctx named unnamed w =
     (case fst (sceneTransitionCallback_body_B ctx named unnamed w) of
        Inr s \<Rightarrow> Inr s
      | Inl e \<Rightarrow> top_outcome_B e,
      snd (sceneTransitionCallback_body_B ctx named unnamed w))"
proof (cases "fst (sceneTransitionCallback_body_B ctx named unnamed w)")
  case (Inl e)
  then show ?thesis
    unfolding sceneTransitionCallback_B_def
    by (simp only: try_catch_caught [where m = "sceneTransitionCallback_body_B ctx named unnamed" and w = w, OF Inl] top_handler_B_run sum.case)
next
  case (Inr s)
  then show ?thesis
    unfolding sceneTransitionCallback_B_def
    by (simp only: try_catch_returned [where m = "sceneTransitionCallback_body_B ctx named unnamed" and w = w, OF Inr] sum.case)
qed

text \<open>The body once generation has returned a line.\<close>

lemma body_A_line:
  assumes "fst (generateSceneLine_A ctx (resolve_instruction unnamed) (resolve_style named) (resolve_max named) w) = Inr line"
  shows "sceneTransitionCallback_body_A ctx named unnamed w =
       (if truthy (JStr line) then
          bindJ (insertAssistantMessage ctx line) (\<lambda>_.
          bindJ (getSettings_A ctx) (\<lambda>settings.
          bindJ (isStableDiffusionAvailable ctx) (\<lambda>isSDAvailable.
          let shouldGenerateBackground = shouldGenerateBackground_A (generateBg_A named) settings isSDAvailable in
          bindJ (if truthy shouldGenerateBackground
                 then try_catch (bindJ (generateBackgroundImage_A ctx) (\<lambda>backgroundResult. returnJ ()))
                        (\<lambda>error. liftJ (read_stack error))
                 else returnJ ()) (\<lambda>_.
          returnJ ''Scene line inserted.''))))
        else returnJ ''No output generated.'')
       (snd (generateSceneLine_A ctx (resolve_instruction unnamed) (resolve_style named) (resolve_max named) w))"
  unfolding sceneTransitionCallback_body_A_def Let_def
  using assms by (rule bindJ_returned)

lemma body_B_line:
  assumes "fst (generateSceneLine_B ctx w) = Inr line"
  shows "sceneTransitionCallback_body_B ctx named unnamed w =
       (if truthy (JStr line) then
          bindJ (insertAssistantMessage ctx line) (\<lambda>_.
          bindJ (getSettings_B ctx) (\<lambda>settings.
          let shouldGenerateBackground = shouldGenerateBackground_B (generateBg_B named) settings in
          bindJ (if truthy shouldGenerateBackground
                 then try_catch (bindJ (generateBackgroundImage_B ctx) (\<lambda>backgroundResult. returnJ ()))
                        (\<lambda>error. returnJ ())
                 else returnJ ()) (\<lambda>_.
          returnJ ''Scene line inserted.'')))
        else returnJ ''No output generated.'')
       (snd (generateSceneLine_B ctx w))"
  unfolding sceneTransitionCallback_body_B_def Let_def
  using assms by (rule bindJ_returned)

lemma body_B_generation_raises:
  assumes "fst (generateSceneLine_B ctx w) = Inl e"
  shows "sceneTransitionCallback_body_B ctx named unnamed w = (Inl e, snd (generateSceneLine_B ctx w))"
  unfolding sceneTransitionCallback_body_B_def Let_def
  using assms by (rule bindJ_thrown)





lemma body_A_empty_line:
  assumes "fst (generateSceneLine_A ctx (resolve_instruction unnamed) (resolve_style named) (resolve_max named) w) = Inr []"
  shows "sceneTransitionCallback_body_A ctx named unnamed w =
           (Inr ''No output generated.'',
            snd (generateSceneLine_A ctx (resolve_instruction unnamed) (resolve_style named) (resolve_max named) w))"
  by (simp add: body_A_line [OF assms] returnJ_def)

lemma body_B_empty_line:
  assumes "fst (generateSceneLine_B ctx w) = Inr []"
  shows "sceneTransitionCallback_body_B ctx named unnamed w =
           (Inr ''No output generated.'', snd (generateSceneLine_B ctx w))"
  by (simp add: body_B_line [OF assms] returnJ_def)


section \<open>What a computation adds to the trace\<close>

lemma generateSceneLine_A_trace:
  "\<exists>evs. trace (snd (generateSceneLine_A ctx i st m w)) = trace w @ evs \<and> list_all generation_event evs"
  by (auto simp: generateSceneLine_A_def generateSceneLine_body_A_def getSettings_A_def js_defs Let_def
        split: sum.splits prod.splits option.splits)

lemma generateSceneLine_B_trace:
  "\<exists>evs. trace (snd (generateSceneLine_B ctx w)) = trace w @ evs \<and> list_all generation_event evs"
  unfolding generateSceneLine_B_world
  by (auto simp: generateSceneLine_body_B_def getSettings_B_def js_defs Let_def
        split: sum.splits prod.splits option.splits)

lemma emitsI:
  "(\<And>w. \<exists>evs. trace (snd (m w)) = trace w @ evs \<and> list_all P evs) \<Longrightarrow> emits P m"
  by (simp add: emits_def)

lemma emitsD:
  "emits P m \<Longrightarrow> \<exists>evs. trace (snd (m w)) = trace w @ evs \<and> list_all P evs"
  by (simp add: emits_def)

lemma emits_returnJ: "emits P (returnJ x)"
  by (simp add: emits_def returnJ_def)

lemma emits_throwJ: "emits P (throwJ e)"
  by (simp add: emits_def throwJ_def)

lemma emits_chat_push: "emits P (chat_push msg)"
  by (simp add: emits_def chat_push_def)

lemma emits_chat_length: "emits P chat_length"
  by (simp add: emits_def chat_length_def)

lemma emits_liftJ: "emits P (liftJ outcome)"
  by (simp add: emits_def liftJ_def)

lemma emits_host_call: "P ev \<Longrightarrow> emits P (host_call ev outcome)"
  by (simp add: emits_def host_call_def)

lemma emits_bindJ:
  assumes m: "emits P m" and f: "\<And>x. emits P (f x)"
  shows "emits P (bindJ m f)"
proof (rule emitsI)
  fix w
  obtain r w1 where mw: "m w = (r, w1)" by (cases "m w")
  from emitsD [OF m, of w] mw obtain evs1 where 1: "trace w1 = trace w @ evs1" "list_all P evs1"
    by auto
  show "\<exists>evs. trace (snd (bindJ m f w)) = trace w @ evs \<and> list_all P evs"
  proof (cases r)
    case (Inl e)
    with mw 1 show ?thesis by (simp add: bindJ_def)
  next
    case (Inr x)
    from emitsD [OF f, of x w1] obtain evs2 where 2: "trace (snd (f x w1)) = trace w1 @ evs2" "list_all P evs2"
      by auto
    have "trace (snd (bindJ m f w)) = trace w @ (evs1 @ evs2)"
      using mw Inr 1 2 by (simp add: bindJ_def)
    moreover have "list_all P (evs1 @ evs2)"
      using 1 2 by simp
    ultimately show ?thesis by blast
  qed
qed

lemma emits_try_catch:
  assumes m: "emits P m" and h: "\<And>e. emits P (h e)"
  shows "emits P (try_catch m h)"
proof (rule emitsI)
  fix w
  obtain r w1 where mw: "m w = (r, w1)" by (cases "m w")
  from emitsD [OF m, of w] mw obtain evs1 where 1: "trace w1 = trace w @ evs1" "list_all P evs1"
    by auto
  show "\<exists>evs. trace (snd (try_catch m h w)) = trace w @ evs \<and> list_all P evs"
  proof (cases r)
    case (Inr x)
    with mw 1 show ?thesis by (simp add: try_catch_def)
  next
    case (Inl e)
    from emitsD [OF h, of e w1] obtain evs2 where 2: "trace (snd (h e w1)) = trace w1 @ evs2" "list_all P evs2"
      by auto
    have "trace (snd (try_catch m h w)) = trace w @ (evs1 @ evs2)"
      using mw Inl 1 2 by (simp add: try_catch_def)
    moreover have "list_all P (evs1 @ evs2)"
      using 1 2 by simp
    ultimately show ?thesis by blast
  qed
qed

lemma emits_getSettings: "emits P (getSettings_A ctx)" "emits P (getSettings_B ctx)"
  by (simp_all add: getSettings_A_def getSettings_B_def emits_returnJ emits_throwJ split: option.splits)

lemma emits_insertAssistantMessage:
  assumes "\<And>t i. P (Emit t i)" and "\<And>msg. P (AddOneMessage msg)" and "P SaveChat"
  shows "emits P (insertAssistantMessage ctx text)"
  unfolding insertAssistantMessage_def Let_def
  by (intro emits_try_catch emits_bindJ emits_chat_push emits_chat_length emits_host_call emits_throwJ assms)

lemma emits_trigger_steps:
  assumes "P SdBackgroundClick"
  shows "emits P (try_catch (bindJ (generateBackgroundImage_A ctx) (\<lambda>backgroundResult. returnJ ())) (\<lambda>error. liftJ (read_stack error)))"
    and "emits P (try_catch (bindJ (generateBackgroundImage_B ctx) (\<lambda>backgroundResult. returnJ ())) (\<lambda>error. returnJ ()))"
  using assms by (simp_all add: trigger_step_A trigger_step_B emits_def)

lemma emits_isStableDiffusionAvailable:
  "P SdProbe \<Longrightarrow> emits P (isStableDiffusionAvailable ctx)"
  by (simp add: emits_def isStableDiffusionAvailable_run)

text \<open>What follows generation in the body of each variant.\<close>

lemma emits_after_generation_A:
  assumes "\<And>t i. P (Emit t i)" and "\<And>msg. P (AddOneMessage msg)" and "P SaveChat"
    and "P SdProbe" and "P SdBackgroundClick"
  shows "emits P
     (if truthy (JStr line) then
        bindJ (insertAssistantMessage ctx line) (\<lambda>_.
        bindJ (getSettings_A ctx) (\<lambda>settings.
        bindJ (isStableDiffusionAvailable ctx) (\<lambda>isSDAvailable.
        let shouldGenerateBackground = shouldGenerateBackground_A generateBg settings isSDAvailable in
        bindJ (if truthy shouldGenerateBackground
               then try_catch (bindJ (generateBackgroundImage_A ctx) (\<lambda>backgroundResult. returnJ ()))
                      (\<lambda>error. liftJ (read_stack error))
               else returnJ ()) (\<lambda>_.
        returnJ ''Scene line inserted.''))))
      else returnJ ''No output generated.'')"
  unfolding Let_def
  by (auto intro!: emits_bindJ emits_insertAssistantMessage emits_getSettings emits_isStableDiffusionAvailable
        emits_trigger_steps emits_returnJ assms)

lemma emits_after_generation_B:
  assumes "\<And>t i. P (Emit t i)" and "\<And>msg. P (AddOneMessage msg)" and "P SaveChat"
    and "P SdBackgroundClick"
  shows "emits P
     (if truthy (JStr line) then
        bindJ (insertAssistantMessage ctx line) (\<lambda>_.
        bindJ (getSettings_B ctx) (\<lambda>settings.
        let shouldGenerateBackground = shouldGenerateBackground_B generateBg settings in
        bindJ (if truthy shouldGenerateBackground
               then try_catch (bindJ (generateBackgroundImage_B ctx) (\<lambda>backgroundResult. returnJ ()))
                      (\<lambda>error. returnJ ())
               else returnJ ()) (\<lambda>_.
        returnJ ''Scene line inserted.'')))
      else returnJ ''No output generated.'')"
  unfolding Let_def
  by (auto intro!: emits_bindJ emits_insertAssistantMessage emits_getSettings
        emits_trigger_steps emits_returnJ assms)

lemma emits_generateSceneLine:
  "emits generation_event (generateSceneLine_A ctx i st m)"
  "emits generation_event (generateSceneLine_B ctx)"
  by (simp_all add: emits_def generateSceneLine_A_trace generateSceneLine_B_trace)

lemma emits_mono:
  assumes "emits P m" and "\<And>ev. P ev \<Longrightarrow> Q ev"
  shows "emits Q m"
proof (rule emitsI)
  fix w
  from emitsD [OF assms(1), of w] obtain evs where "trace (snd (m w)) = trace w @ evs" "list_all P evs"
    by auto
  moreover from this assms(2) have "list_all Q evs"
    by (auto simp: list_all_iff)
  ultimately show "\<exists>evs. trace (snd (m w)) = trace w @ evs \<and> list_all Q evs"
    by blast
qed

lemma emits_count:
  assumes "emits P m" and "\<not> P ev"
  shows "count_list (trace (snd (m w))) ev = count_list (trace w) ev"
proof -
  from emitsD [OF assms(1), of w] obtain evs where evs: "trace (snd (m w)) = trace w @ evs" "list_all P evs"
    by auto
  with assms(2) have "ev \<notin> set evs"
    by (auto simp: list_all_iff)
  then have "count_list evs ev = 0"
    by (simp add: count_list_0_iff)
  with evs show ?thesis by simp
qed

lemma emits_callback_B:
  assumes "\<And>ev. generation_event ev \<Longrightarrow> P ev"
    and "\<And>t i. P (Emit t i)" and "\<And>msg. P (AddOneMessage msg)" and "P SaveChat"
    and "P SdBackgroundClick"
  shows "emits P (sceneTransitionCallback_B ctx named unnamed)"
  unfolding sceneTransitionCallback_B_def sceneTransitionCallback_body_B_def Let_def
  by (intro emits_try_catch emits_bindJ emits_returnJ emits_liftJ allI emits_after_generation_B [unfolded Let_def] assms(2-5)
        emits_mono [OF emits_generateSceneLine(2) assms(1)])

lemma emits_callback_A:
  assumes "\<And>ev. generation_event ev \<Longrightarrow> P ev"
    and "\<And>t i. P (Emit t i)" and "\<And>msg. P (AddOneMessage msg)" and "P SaveChat"
    and "P SdProbe" and "P SdBackgroundClick"
  shows "emits P (sceneTransitionCallback_A ctx named unnamed)"
  unfolding sceneTransitionCallback_A_def sceneTransitionCallback_body_A_def Let_def
  by (intro emits_try_catch emits_bindJ emits_returnJ emits_liftJ emits_after_generation_A [unfolded Let_def] assms(2-6)
        emits_mono [OF emits_generateSceneLine(1) assms(1)])

lemma emits_body_after_line_A:
  "emits (\<lambda>ev. \<not> generation_event ev)
     (if truthy (JStr line) then
        bindJ (insertAssistantMessage ctx line) (\<lambda>_.
        bindJ (getSettings_A ctx) (\<lambda>settings.
        bindJ (isStableDiffusionAvailable ctx) (\<lambda>isSDAvailable.
        let shouldGenerateBackground = shouldGenerateBackground_A generateBg settings isSDAvailable in
        bindJ (if truthy shouldGenerateBackground
               then try_catch (bindJ (generateBackgroundImage_A ctx) (\<lambda>backgroundResult. returnJ ()))
                      (\<lambda>error. liftJ (read_stack error))
               else returnJ ()) (\<lambda>_.
        returnJ ''Scene line inserted.''))))
      else returnJ ''No output generated.'')"
  by (rule emits_after_generation_A) simp_all

lemma emits_body_after_line_B:
  "emits (\<lambda>ev. \<not> generation_event ev)
     (if truthy (JStr line) then
        bindJ (insertAssistantMessage ctx line) (\<lambda>_.
        bindJ (getSettings_B ctx) (\<lambda>settings.
        let shouldGenerateBackground = shouldGenerateBackground_B generateBg settings in
        bindJ (if truthy shouldGenerateBackground
               then try_catch (bindJ (generateBackgroundImage_B ctx) (\<lambda>backgroundResult. returnJ ()))
                      (\<lambda>error. returnJ ())
               else returnJ ()) (\<lambda>_.
        returnJ ''Scene line inserted.'')))
      else returnJ ''No output generated.'')"
  by (rule emits_after_generation_B) simp_all

text \<open>After generation a transition calls no generation collaborator again.\<close>

lemma callback_A_after_generation:
  "\<exists>rest. trace (snd (sceneTransitionCallback_A ctx named unnamed w))
            = trace (snd (generateSceneLine_A ctx (resolve_instruction unnamed) (resolve_style named) (resolve_max named) w)) @ rest
          \<and> list_all (\<lambda>ev. \<not> generation_event ev) rest"
proof -
  let ?gen = "generateSceneLine_A ctx (resolve_instruction unnamed) (resolve_style named) (resolve_max named)"
  obtain line where line: "fst (?gen w) = Inr line"
    using generateSceneLine_A_returns by blast
  from emitsD [OF emits_body_after_line_A, of line ctx "generateBg_A named" "snd (?gen w)"]
  show ?thesis
    by (simp add: callback_A_of_body body_A_line [OF line])
qed

lemma callback_B_after_generation:
  "\<exists>rest. trace (snd (sceneTransitionCallback_B ctx named unnamed w))
            = trace (snd (generateSceneLine_B ctx w)) @ rest
          \<and> list_all (\<lambda>ev. \<not> generation_event ev) rest"
proof (cases "fst (generateSceneLine_B ctx w)")
  case (Inr line)
  from emitsD [OF emits_body_after_line_B, of line ctx "generateBg_B named" "snd (generateSceneLine_B ctx w)"]
  show ?thesis
    by (simp add: callback_B_of_body body_B_line [OF Inr])
next
  case (Inl e)
  show ?thesis
    by (simp add: callback_B_of_body body_B_generation_raises [OF Inl])
qed


section \<open>Empty and non-empty lines\<close>

lemma callback_A_empty_line:
  assumes "fst (generateSceneLine_A ctx (resolve_instruction unnamed) (resolve_style named) (resolve_max named) w) = Inr []"
  shows "sceneTransitionCallback_A ctx named unnamed w =
           (Inr ''No output generated.'',
            snd (generateSceneLine_A ctx (resolve_instruction unnamed) (resolve_style named) (resolve_max named) w))"
  by (simp add: callback_A_of_body body_A_empty_line [OF assms])

lemma callback_B_empty_line:
  assumes "fst (generateSceneLine_B ctx w) = Inr []"
  shows "sceneTransitionCallback_B ctx named unnamed w =
           (Inr ''No output generated.'', snd (generateSceneLine_B ctx w))"
  by (simp add: callback_B_of_body body_B_empty_line [OF assms])







section \<open>The example host\<close>

lemma example_generation_A:
  "generateSceneLine_A (example_ctx\<lparr>sd_background_click := c\<rparr>) i st m example_world
     = (Inr ''Hello there.'',
        \<lparr>chat = [],
         trace = [SubstituteParams (quietPrompt_A (JStr ''Move on.'') st i),
                  GenerateQuietPrompt \<lparr>quietPrompt = quietPrompt_A (JStr ''Move on.'') st i, quietToLoud = True,
                     maxTokens = Some (if truthy m then Number m else Num (Fin 120))\<rparr>]\<rparr>)"
  by (simp add: generateSceneLine_A_def generateSceneLine_body_A_def getSettings_A_def js_defs Let_def
        example_ctx_def example_extensionSettings_def example_world_def backend_hello_def
        EXTENSION_SETTINGS_KEY_def getProp_def js_or_def finalResult_def trim_def is_ws_def)

lemma example_generation_B:
  "generateSceneLine_B (example_ctx\<lparr>sd_background_click := c\<rparr>) example_world
     = (Inr ''Hello there.'',
        \<lparr>chat = [],
         trace = [SubstituteParams ''Move on.'',
                  GenerateQuietPrompt \<lparr>quietPrompt = ''Move on.'', quietToLoud = True, maxTokens = None\<rparr>]\<rparr>)"
  by (simp add: generateSceneLine_B_def generateSceneLine_body_B_def getSettings_B_def js_defs Let_def
        example_ctx_def example_extensionSettings_def example_world_def backend_hello_def
        EXTENSION_SETTINGS_KEY_def getProp_def js_or_def finalResult_def trim_def is_ws_def)

lemma example_insertion:
  "fst (insertAssistantMessage (example_ctx\<lparr>sd_background_click := c\<rparr>) text w) = Inr ()"
  by (simp add: insertAssistantMessage_result example_ctx_def emit_ok_def addOneMessage_ok_def)


section \<open>An empty line\<close>

text \<open>
  C3. If generation yields the empty line, the transition returns exactly
  \<open>"No output generated."\<close> and stops there: the chat is unchanged, and the only
  collaborators called are those of generation itself, so no message is inserted, the
  availability probe is not evaluated and the background trigger is not fired. This holds
  for both variants, whatever the explicit flag and the settings are.
\<close>

theorem empty_line_no_output:
  "(fst (generateSceneLine_A ctx (resolve_instruction unnamed) (resolve_style named) (resolve_max named) w) = Inr [] \<longrightarrow>
      fst (sceneTransitionCallback_A ctx named unnamed w) = Inr ''No output generated.'' \<and>
      chat (snd (sceneTransitionCallback_A ctx named unnamed w)) = chat w \<and>
      (\<exists>evs. trace (snd (sceneTransitionCallback_A ctx named unnamed w)) = trace w @ evs \<and>
             list_all generation_event evs)) \<and>
   (fst (generateSceneLine_B ctx w) = Inr [] \<longrightarrow>
      fst (sceneTransitionCallback_B ctx named unnamed w) = Inr ''No output generated.'' \<and>
      chat (snd (sceneTransitionCallback_B ctx named unnamed w)) = chat w \<and>
      (\<exists>evs. trace (snd (sceneTransitionCallback_B ctx named unnamed w)) = trace w @ evs \<and>
             list_all generation_event evs))"
proof (intro conjI impI)
  assume a: "fst (generateSceneLine_A ctx (resolve_instruction unnamed) (resolve_style named) (resolve_max named) w) = Inr []"
  note run = callback_A_empty_line [OF a]
  show "fst (sceneTransitionCallback_A ctx named unnamed w) = Inr ''No output generated.''"
    by (simp add: run)
  show "chat (snd (sceneTransitionCallback_A ctx named unnamed w)) = chat w"
    by (simp add: run generateSceneLine_A_chat)
  show "\<exists>evs. trace (snd (sceneTransitionCallback_A ctx named unnamed w)) = trace w @ evs \<and>
             list_all generation_event evs"
    by (simp add: run generateSceneLine_A_trace)
next
  assume b: "fst (generateSceneLine_B ctx w) = Inr []"
  note run = callback_B_empty_line [OF b, of named unnamed]
  show "fst (sceneTransitionCallback_B ctx named unnamed w) = Inr ''No output generated.''"
    by (simp add: run)
  show "chat (snd (sceneTransitionCallback_B ctx named unnamed w)) = chat w"
    by (simp add: run generateSceneLine_B_chat)
  show "\<exists>evs. trace (snd (sceneTransitionCallback_B ctx named unnamed w)) = trace w @ evs \<and>
             list_all generation_event evs"
    by (simp add: run generateSceneLine_B_trace)
qed

text \<open>The theorem at a backend that answers with blanks, with the explicit flag set.\<close>

theorem empty_line_no_output_witness:
  "fst (generateSceneLine_A (example_ctx\<lparr>generateQuietPrompt := Some backend_blank\<rparr>)
          (resolve_instruction (JStr ''To the beach'')) (resolve_style (Some [''background'' \<mapsto> JBool True]))
          (resolve_max (Some [''background'' \<mapsto> JBool True])) example_world) = Inr [] \<and>
   fst (sceneTransitionCallback_A (example_ctx\<lparr>generateQuietPrompt := Some backend_blank\<rparr>)
          (Some [''background'' \<mapsto> JBool True]) (JStr ''To the beach'') example_world)
     = Inr ''No output generated.'' \<and>
   chat (snd (sceneTransitionCallback_A (example_ctx\<lparr>generateQuietPrompt := Some backend_blank\<rparr>)
          (Some [''background'' \<mapsto> JBool True]) (JStr ''To the beach'') example_world)) = [] \<and>
   list_all generation_event
     (trace (snd (sceneTransitionCallback_A (example_ctx\<lparr>generateQuietPrompt := Some backend_blank\<rparr>)
          (Some [''background'' \<mapsto> JBool True]) (JStr ''To the beach'') example_world))) \<and>
   fst (generateSceneLine_B (example_ctx\<lparr>generateQuietPrompt := Some backend_blank\<rparr>) example_world) = Inr [] \<and>
   fst (sceneTransitionCallback_B (example_ctx\<lparr>generateQuietPrompt := Some backend_blank\<rparr>)
          (Some [''background'' \<mapsto> JStr ''true'']) JUndefined example_world)
     = Inr ''No output generated.'' \<and>
   chat (snd (sceneTransitionCallback_B (example_ctx\<lparr>generateQuietPrompt := Some backend_blank\<rparr>)
          (Some [''background'' \<mapsto> JStr ''true'']) JUndefined example_world)) = [] \<and>
   list_all generation_event
     (trace (snd (sceneTransitionCallback_B (example_ctx\<lparr>generateQuietPrompt := Some backend_blank\<rparr>)
          (Some [''background'' \<mapsto> JStr ''true'']) JUndefined example_world)))"
proof -
  let ?ctx = "example_ctx\<lparr>generateQuietPrompt := Some backend_blank\<rparr>"
  let ?nA = "Some [''background'' \<mapsto> JBool True]"
  let ?nB = "Some [''background'' \<mapsto> JStr ''true'']"
  have a: "fst (generateSceneLine_A ?ctx (resolve_instruction (JStr ''To the beach'')) (resolve_style ?nA)
                 (resolve_max ?nA) example_world) = Inr []"
    by (simp add: generateSceneLine_A_def generateSceneLine_body_A_def getSettings_A_def js_defs Let_def
          example_ctx_def backend_blank_def finalResult_def trim_def is_ws_def)
  have b: "fst (generateSceneLine_B ?ctx example_world) = Inr []"
    by (simp add: generateSceneLine_B_def generateSceneLine_body_B_def getSettings_B_def js_defs Let_def
          example_ctx_def backend_blank_def finalResult_def trim_def is_ws_def)
  have w: "chat example_world = []" "trace example_world = []"
    by (simp_all add: example_world_def)
  from empty_line_no_output [of ?ctx "JStr ''To the beach''" ?nA example_world] a w
  have A: "fst (sceneTransitionCallback_A ?ctx ?nA (JStr ''To the beach'') example_world) = Inr ''No output generated.''"
      "chat (snd (sceneTransitionCallback_A ?ctx ?nA (JStr ''To the beach'') example_world)) = []"
      "list_all generation_event (trace (snd (sceneTransitionCallback_A ?ctx ?nA (JStr ''To the beach'') example_world)))"
    by auto
  from empty_line_no_output [of ?ctx JUndefined ?nB example_world] b w
  have B: "fst (sceneTransitionCallback_B ?ctx ?nB JUndefined example_world) = Inr ''No output generated.''"
      "chat (snd (sceneTransitionCallback_B ?ctx ?nB JUndefined example_world)) = []"
      "list_all generation_event (trace (snd (sceneTransitionCallback_B ?ctx ?nB JUndefined example_world)))"
    by auto
  from a b A B show ?thesis by blast
qed


section \<open>The trigger decision\<close>

text \<open>
  C4. The decision block of the callback returns the explicit flag itself whenever the
  flag is defined, in both variants. When the flag is undefined, variant A (Policy A)
  returns \<open>settings.autoGenerateBackground && isSDAvailable\<close>, which is truthy exactly
  when the setting is truthy and the probe said yes, and variant B (Policy B) returns
  \<open>settings.autoGenerateBackground\<close> alone. In particular an explicit \<open>true\<close> wins over a
  setting that is off, and an explicit \<open>false\<close> over a setting that is on.
\<close>

theorem trigger_decision:
  "(generateBg \<noteq> JUndefined \<longrightarrow>
      shouldGenerateBackground_A generateBg settings isSDAvailable = generateBg \<and>
      shouldGenerateBackground_B generateBg settings = generateBg) \<and>
   shouldGenerateBackground_A JUndefined settings isSDAvailable
     = js_and (getProp settings ''autoGenerateBackground'') (JBool isSDAvailable) \<and>
   truthy (shouldGenerateBackground_A JUndefined settings isSDAvailable)
     = (truthy (getProp settings ''autoGenerateBackground'') \<and> isSDAvailable) \<and>
   shouldGenerateBackground_B JUndefined settings = getProp settings ''autoGenerateBackground'' \<and>
   shouldGenerateBackground_A (JBool True) [''autoGenerateBackground'' \<mapsto> JBool False] isSDAvailable = JBool True \<and>
   shouldGenerateBackground_B (JBool True) [''autoGenerateBackground'' \<mapsto> JBool False] = JBool True \<and>
   shouldGenerateBackground_A (JBool False) [''autoGenerateBackground'' \<mapsto> JBool True] isSDAvailable = JBool False \<and>
   shouldGenerateBackground_B (JBool False) [''autoGenerateBackground'' \<mapsto> JBool True] = JBool False"
  by (simp add: shouldGenerateBackground_A_def shouldGenerateBackground_B_def js_and_def)

text \<open>The theorem at an explicit \<open>false\<close> against a setting that is on and an available
  image backend.\<close>

theorem trigger_decision_witness:
  "JBool False \<noteq> JUndefined \<and>
   shouldGenerateBackground_A (JBool False) [''autoGenerateBackground'' \<mapsto> JBool True] True = JBool False \<and>
   shouldGenerateBackground_B (JBool False) [''autoGenerateBackground'' \<mapsto> JBool True] = JBool False \<and>
   truthy (shouldGenerateBackground_A JUndefined [''autoGenerateBackground'' \<mapsto> JBool True] True) \<and>
   shouldGenerateBackground_B JUndefined [''autoGenerateBackground'' \<mapsto> JBool True] = JBool True"
proof -
  have flag: "JBool False \<noteq> JUndefined" by simp
  from trigger_decision [of "JBool False" "[''autoGenerateBackground'' \<mapsto> JBool True]" True] flag
  show ?thesis by (simp add: getProp_def js_and_def)
qed


section \<open>A failing background trigger\<close>

text \<open>
  C6. Let the click on the background trigger throw. If generation gave a non-empty line,
  the insertion succeeded, the settings could be read and the decision came out truthy,
  then the trigger is invoked (it is the last call of the run), the transition still
  returns \<open>"Scene line inserted."\<close>, and the chat is the old chat followed by the
  Generated Message. Moreover a run with a throwing trigger is, result and world, the
  run with a trigger that succeeds. Both variants.
\<close>

theorem background_failure_discarded:
  assumes "sd_background_click ctx = Inl e"
  shows
   "(fst (generateSceneLine_A ctx (resolve_instruction unnamed) (resolve_style named) (resolve_max named) w) = Inr line \<and>
     line \<noteq> [] \<and>
     fst (insertAssistantMessage ctx line
            (snd (generateSceneLine_A ctx (resolve_instruction unnamed) (resolve_style named) (resolve_max named) w))) = Inr () \<and>
     extensionSettings ctx = Some es \<and>
     truthy (shouldGenerateBackground_A (generateBg_A named) (DEFAULT_SETTINGS_A ++ userSettings_of es) (probe_answer ctx)) \<longrightarrow>
       fst (sceneTransitionCallback_A ctx named unnamed w) = Inr ''Scene line inserted.'' \<and>
       chat (snd (sceneTransitionCallback_A ctx named unnamed w)) = chat w @ [buildAssistantMessage ctx line] \<and>
       last (trace (snd (sceneTransitionCallback_A ctx named unnamed w))) = SdBackgroundClick) \<and>
    (fst (generateSceneLine_B ctx w) = Inr line \<and>
     line \<noteq> [] \<and>
     fst (insertAssistantMessage ctx line (snd (generateSceneLine_B ctx w))) = Inr () \<and>
     extensionSettings ctx = Some es \<and>
     truthy (shouldGenerateBackground_B (generateBg_B named) (DEFAULT_SETTINGS_B ++ userSettings_of es)) \<longrightarrow>
       fst (sceneTransitionCallback_B ctx named unnamed w) = Inr ''Scene line inserted.'' \<and>
       chat (snd (sceneTransitionCallback_B ctx named unnamed w)) = chat w @ [buildAssistantMessage ctx line] \<and>
       last (trace (snd (sceneTransitionCallback_B ctx named unnamed w))) = SdBackgroundClick) \<and>
    sceneTransitionCallback_A ctx named unnamed w
      = sceneTransitionCallback_A (ctx\<lparr>sd_background_click := Inr ()\<rparr>) named unnamed w \<and>
    sceneTransitionCallback_B ctx named unnamed w
      = sceneTransitionCallback_B (ctx\<lparr>sd_background_click := Inr ()\<rparr>) named unnamed w"
proof (intro conjI impI)
  assume h: "fst (generateSceneLine_A ctx (resolve_instruction unnamed) (resolve_style named) (resolve_max named) w) = Inr line \<and>
     line \<noteq> [] \<and>
     fst (insertAssistantMessage ctx line
            (snd (generateSceneLine_A ctx (resolve_instruction unnamed) (resolve_style named) (resolve_max named) w))) = Inr () \<and>
     extensionSettings ctx = Some es \<and>
     truthy (shouldGenerateBackground_A (generateBg_A named) (DEFAULT_SETTINGS_A ++ userSettings_of es) (probe_answer ctx))"
  then have run: "sceneTransitionCallback_A ctx named unnamed w =
           (Inr ''Scene line inserted.'',
            (snd (insertAssistantMessage ctx line
                (snd (generateSceneLine_A ctx (resolve_instruction unnamed) (resolve_style named) (resolve_max named) w))))
              \<lparr>trace := trace (snd (insertAssistantMessage ctx line
                (snd (generateSceneLine_A ctx (resolve_instruction unnamed) (resolve_style named) (resolve_max named) w))))
                 @ [SdProbe, SdBackgroundClick]\<rparr>)"
    using callback_A_inserted [of ctx unnamed named w line es] by simp
  show "fst (sceneTransitionCallback_A ctx named unnamed w) = Inr ''Scene line inserted.''"
    by (simp add: run)
  show "chat (snd (sceneTransitionCallback_A ctx named unnamed w)) = chat w @ [buildAssistantMessage ctx line]"
    by (simp add: run insertAssistantMessage_chat generateSceneLine_A_chat)
  show "last (trace (snd (sceneTransitionCallback_A ctx named unnamed w))) = SdBackgroundClick"
    by (simp add: run)
next
  assume h: "fst (generateSceneLine_B ctx w) = Inr line \<and>
     line \<noteq> [] \<and>
     fst (insertAssistantMessage ctx line (snd (generateSceneLine_B ctx w))) = Inr () \<and>
     extensionSettings ctx = Some es \<and>
     truthy (shouldGenerateBackground_B (generateBg_B named) (DEFAULT_SETTINGS_B ++ userSettings_of es))"
  then have run: "sceneTransitionCallback_B ctx named unnamed w =
           (Inr ''Scene line inserted.'',
            (snd (insertAssistantMessage ctx line (snd (generateSceneLine_B ctx w))))
              \<lparr>trace := trace (snd (insertAssistantMessage ctx line (snd (generateSceneLine_B ctx w))))
                 @ [SdBackgroundClick]\<rparr>)"
    using callback_B_inserted [of ctx w line es named unnamed] by simp
  show "fst (sceneTransitionCallback_B ctx named unnamed w) = Inr ''Scene line inserted.''"
    by (simp add: run)
  show "chat (snd (sceneTransitionCallback_B ctx named unnamed w)) = chat w @ [buildAssistantMessage ctx line]"
    by (simp add: run insertAssistantMessage_chat generateSceneLine_B_chat)
  show "last (trace (snd (sceneTransitionCallback_B ctx named unnamed w))) = SdBackgroundClick"
    by (simp add: run)
next
  show "sceneTransitionCallback_A ctx named unnamed w
      = sceneTransitionCallback_A (ctx\<lparr>sd_background_click := Inr ()\<rparr>) named unnamed w"
    by (simp add: callback_A_ignores_click_outcome)
  show "sceneTransitionCallback_B ctx named unnamed w
      = sceneTransitionCallback_B (ctx\<lparr>sd_background_click := Inr ()\<rparr>) named unnamed w"
    by (simp add: callback_B_ignores_click_outcome)
qed

text \<open>The theorem at a host whose click throws, with the explicit flag set.\<close>

theorem background_failure_discarded_witness:
  "sd_background_click (example_ctx\<lparr>sd_background_click := Inl (Error ''no button'')\<rparr>) = Inl (Error ''no button'') \<and>
   fst (sceneTransitionCallback_A (example_ctx\<lparr>sd_background_click := Inl (Error ''no button'')\<rparr>)
          (Some [''background'' \<mapsto> JBool True]) (JStr ''To the beach'') example_world)
     = Inr ''Scene line inserted.'' \<and>
   chat (snd (sceneTransitionCallback_A (example_ctx\<lparr>sd_background_click := Inl (Error ''no button'')\<rparr>)
          (Some [''background'' \<mapsto> JBool True]) (JStr ''To the beach'') example_world))
     = [\<lparr>is_user = False, name = JStr ''Seraphina'', send_date = 1700000000, mes = ''Hello there.''\<rparr>] \<and>
   last (trace (snd (sceneTransitionCallback_A (example_ctx\<lparr>sd_background_click := Inl (Error ''no button'')\<rparr>)
          (Some [''background'' \<mapsto> JBool True]) (JStr ''To the beach'') example_world)))
     = SdBackgroundClick \<and>
   fst (sceneTransitionCallback_B (example_ctx\<lparr>sd_background_click := Inl (Error ''no button'')\<rparr>)
          (Some [''background'' \<mapsto> JStr ''true'']) JUndefined example_world)
     = Inr ''Scene line inserted.'' \<and>
   chat (snd (sceneTransitionCallback_B (example_ctx\<lparr>sd_background_click := Inl (Error ''no button'')\<rparr>)
          (Some [''background'' \<mapsto> JStr ''true'']) JUndefined example_world))
     = [\<lparr>is_user = False, name = JStr ''Seraphina'', send_date = 1700000000, mes = ''Hello there.''\<rparr>] \<and>
   last (trace (snd (sceneTransitionCallback_B (example_ctx\<lparr>sd_background_click := Inl (Error ''no button'')\<rparr>)
          (Some [''background'' \<mapsto> JStr ''true'']) JUndefined example_world)))
     = SdBackgroundClick"
proof -
  let ?ctx = "example_ctx\<lparr>sd_background_click := Inl (Error ''no button'')\<rparr>"
  let ?nA = "Some [''background'' \<mapsto> JBool True]"
  let ?nB = "Some [''background'' \<mapsto> JStr ''true'']"
  have click: "sd_background_click ?ctx = Inl (Error ''no button'')"
    by simp
  have es: "extensionSettings ?ctx = Some example_extensionSettings"
    by (simp add: example_ctx_def)
  have msg: "buildAssistantMessage ?ctx ''Hello there.''
      = \<lparr>is_user = False, name = JStr ''Seraphina'', send_date = 1700000000, mes = ''Hello there.''\<rparr>"
    by (simp add: buildAssistantMessage_def example_ctx_def)
  have w: "chat example_world = []"
    by (simp add: example_world_def)
  have dA: "truthy (shouldGenerateBackground_A (generateBg_A ?nA)
              (DEFAULT_SETTINGS_A ++ userSettings_of example_extensionSettings) (probe_answer ?ctx))"
    by (simp add: shouldGenerateBackground_A_def generateBg_A_def optProp_def getProp_def)
  have dB: "truthy (shouldGenerateBackground_B (generateBg_B ?nB)
              (DEFAULT_SETTINGS_B ++ userSettings_of example_extensionSettings))"
    by (simp add: shouldGenerateBackground_B_def generateBg_B_def optProp_def getProp_def)
  have hA: "fst (generateSceneLine_A ?ctx (resolve_instruction (JStr ''To the beach'')) (resolve_style ?nA) (resolve_max ?nA) example_world) = Inr ''Hello there.'' \<and>
     ''Hello there.'' \<noteq> [] \<and>
     fst (insertAssistantMessage ?ctx ''Hello there.''
            (snd (generateSceneLine_A ?ctx (resolve_instruction (JStr ''To the beach'')) (resolve_style ?nA) (resolve_max ?nA) example_world))) = Inr () \<and>
     extensionSettings ?ctx = Some example_extensionSettings \<and>
     truthy (shouldGenerateBackground_A (generateBg_A ?nA) (DEFAULT_SETTINGS_A ++ userSettings_of example_extensionSettings) (probe_answer ?ctx))"
    using es dA by (simp add: example_generation_A example_insertion)
  have hB: "fst (generateSceneLine_B ?ctx example_world) = Inr ''Hello there.'' \<and>
     ''Hello there.'' \<noteq> [] \<and>
     fst (insertAssistantMessage ?ctx ''Hello there.'' (snd (generateSceneLine_B ?ctx example_world))) = Inr () \<and>
     extensionSettings ?ctx = Some example_extensionSettings \<and>
     truthy (shouldGenerateBackground_B (generateBg_B ?nB) (DEFAULT_SETTINGS_B ++ userSettings_of example_extensionSettings))"
    using es dB by (simp add: example_generation_B example_insertion)
  have A: "fst (sceneTransitionCallback_A ?ctx ?nA (JStr ''To the beach'') example_world) = Inr ''Scene line inserted.'' \<and>
       chat (snd (sceneTransitionCallback_A ?ctx ?nA (JStr ''To the beach'') example_world))
         = chat example_world @ [buildAssistantMessage ?ctx ''Hello there.''] \<and>
       last (trace (snd (sceneTransitionCallback_A ?ctx ?nA (JStr ''To the beach'') example_world))) = SdBackgroundClick"
    using background_failure_discarded
            [OF click, of "JStr ''To the beach''" ?nA example_world "''Hello there.''" example_extensionSettings]
          hA
    by blast
  have B: "fst (sceneTransitionCallback_B ?ctx ?nB JUndefined example_world) = Inr ''Scene line inserted.'' \<and>
       chat (snd (sceneTransitionCallback_B ?ctx ?nB JUndefined example_world))
         = chat example_world @ [buildAssistantMessage ?ctx ''Hello there.''] \<and>
       last (trace (snd (sceneTransitionCallback_B ?ctx ?nB JUndefined example_world))) = SdBackgroundClick"
    using background_failure_discarded
            [OF click, of JUndefined ?nB example_world "''Hello there.''" example_extensionSettings]
          hB
    by blast
  from click A B show ?thesis
    by (simp only: msg w append_Nil)
qed


section \<open>When the probe is evaluated\<close>

lemma generation_events_no_probe:
  "list_all generation_event evs \<Longrightarrow> count_list evs SdProbe = 0"
  by (auto simp: count_list_0_iff list_all_iff)

text \<open>
  C7, as amended. In variant A the probe is not short-circuited: whenever generation gave
  a non-empty line, the insertion succeeded and the settings could be read, the probe is
  evaluated exactly once, after the insertion and before the trigger may fire, whatever
  the explicit flag and the auto-trigger setting are. Only its answer goes unused: with
  a defined flag, or with a falsy setting, the decision is the same for both answers.
  Variant B never evaluates the probe.
\<close>

theorem probe_evaluation:
  "(fst (generateSceneLine_A ctx (resolve_instruction unnamed) (resolve_style named) (resolve_max named) w) = Inr line \<and>
    line \<noteq> [] \<and>
    fst (insertAssistantMessage ctx line
           (snd (generateSceneLine_A ctx (resolve_instruction unnamed) (resolve_style named) (resolve_max named) w))) = Inr () \<and>
    extensionSettings ctx = Some es \<longrightarrow>
      (\<exists>evs. list_all generation_event evs \<and>
         trace (snd (sceneTransitionCallback_A ctx named unnamed w))
           = trace w @ evs @ insertion_events (buildAssistantMessage ctx line) (length (chat w))
               @ SdProbe #
                 (if truthy (shouldGenerateBackground_A (generateBg_A named)
                               (DEFAULT_SETTINGS_A ++ userSettings_of es) (probe_answer ctx))
                  then [SdBackgroundClick] else []))) \<and>
   (generateBg \<noteq> JUndefined \<or> \<not> truthy (getProp settings ''autoGenerateBackground'') \<longrightarrow>
      shouldGenerateBackground_A generateBg settings True = shouldGenerateBackground_A generateBg settings False) \<and>
   count_list (trace (snd (sceneTransitionCallback_B ctx named unnamed w))) SdProbe = count_list (trace w) SdProbe"
proof (intro conjI impI)
  let ?gen = "generateSceneLine_A ctx (resolve_instruction unnamed) (resolve_style named) (resolve_max named)"
  assume h: "fst (?gen w) = Inr line \<and> line \<noteq> [] \<and>
    fst (insertAssistantMessage ctx line (snd (?gen w))) = Inr () \<and> extensionSettings ctx = Some es"
  then have gen: "fst (?gen w) = Inr line" and line: "line \<noteq> []"
    and ins: "fst (insertAssistantMessage ctx line (snd (?gen w))) = Inr ()"
    and es: "extensionSettings ctx = Some es"
    by simp_all
  obtain evs where evs: "trace (snd (?gen w)) = trace w @ evs" "list_all generation_event evs"
    using generateSceneLine_A_trace by blast
  have "trace (snd (sceneTransitionCallback_A ctx named unnamed w))
           = trace w @ evs @ insertion_events (buildAssistantMessage ctx line) (length (chat w))
               @ SdProbe #
                 (if truthy (shouldGenerateBackground_A (generateBg_A named)
                               (DEFAULT_SETTINGS_A ++ userSettings_of es) (probe_answer ctx))
                  then [SdBackgroundClick] else [])"
    by (simp add: callback_A_inserted [OF gen line ins es] insertAssistantMessage_success [OF ins]
          evs(1) generateSceneLine_A_chat)
  with evs(2) show "\<exists>evs. list_all generation_event evs \<and>
         trace (snd (sceneTransitionCallback_A ctx named unnamed w))
           = trace w @ evs @ insertion_events (buildAssistantMessage ctx line) (length (chat w))
               @ SdProbe #
                 (if truthy (shouldGenerateBackground_A (generateBg_A named)
                               (DEFAULT_SETTINGS_A ++ userSettings_of es) (probe_answer ctx))
                  then [SdBackgroundClick] else [])"
    by blast
next
  assume "generateBg \<noteq> JUndefined \<or> \<not> truthy (getProp settings ''autoGenerateBackground'')"
  then show "shouldGenerateBackground_A generateBg settings True = shouldGenerateBackground_A generateBg settings False"
    by (auto simp: shouldGenerateBackground_A_def js_and_def)
next
  have "emits (\<lambda>ev. ev \<noteq> SdProbe) (sceneTransitionCallback_B ctx named unnamed)"
    by (rule emits_callback_B) auto
  then show "count_list (trace (snd (sceneTransitionCallback_B ctx named unnamed w))) SdProbe = count_list (trace w) SdProbe"
    by (rule emits_count) simp
qed

text \<open>The theorem at the example host, with the explicit flag set.\<close>

theorem probe_evaluation_witness:
  "JBool True \<noteq> JUndefined \<and>
   count_list (trace (snd (sceneTransitionCallback_A example_ctx (Some [''background'' \<mapsto> JBool True])
      (JStr ''To the beach'') example_world))) SdProbe = 1 \<and>
   shouldGenerateBackground_A (JBool True) Map.empty True = shouldGenerateBackground_A (JBool True) Map.empty False \<and>
   count_list (trace (snd (sceneTransitionCallback_B example_ctx (Some [''background'' \<mapsto> JStr ''true''])
      JUndefined example_world))) SdProbe = 0"
proof -
  let ?nA = "Some [''background'' \<mapsto> JBool True]"
  let ?nB = "Some [''background'' \<mapsto> JStr ''true'']"
  have ctx: "example_ctx\<lparr>sd_background_click := Inr ()\<rparr> = example_ctx"
    by (simp add: example_ctx_def)
  have hA: "fst (generateSceneLine_A example_ctx (resolve_instruction (JStr ''To the beach'')) (resolve_style ?nA) (resolve_max ?nA) example_world) = Inr ''Hello there.'' \<and>
     ''Hello there.'' \<noteq> [] \<and>
     fst (insertAssistantMessage example_ctx ''Hello there.''
            (snd (generateSceneLine_A example_ctx (resolve_instruction (JStr ''To the beach'')) (resolve_style ?nA) (resolve_max ?nA) example_world))) = Inr () \<and>
     extensionSettings example_ctx = Some example_extensionSettings"
    using example_generation_A [of "Inr ()"] example_insertion [of "Inr ()"]
    by (simp add: ctx) (simp add: example_ctx_def)
  have flag: "JBool True \<noteq> JUndefined \<or> \<not> truthy (getProp Map.empty ''autoGenerateBackground'')"
    by simp
  note T = probe_evaluation [of example_ctx "JStr ''To the beach''" ?nA example_world "''Hello there.''"
               example_extensionSettings "JBool True" Map.empty]
  note T2 = probe_evaluation [of example_ctx JUndefined ?nB example_world]
  from T hA obtain evs where evs: "list_all generation_event evs"
    and tr: "trace (snd (sceneTransitionCallback_A example_ctx ?nA (JStr ''To the beach'') example_world))
           = trace example_world @ evs @ insertion_events (buildAssistantMessage example_ctx ''Hello there.'') (length (chat example_world))
               @ SdProbe #
                 (if truthy (shouldGenerateBackground_A (generateBg_A ?nA)
                               (DEFAULT_SETTINGS_A ++ userSettings_of example_extensionSettings) (probe_answer example_ctx))
                  then [SdBackgroundClick] else [])"
    by blast
  have A: "count_list (trace (snd (sceneTransitionCallback_A example_ctx ?nA (JStr ''To the beach'') example_world))) SdProbe = 1"
    by (simp only: tr) (simp add: generation_events_no_probe [OF evs] insertion_events_def example_world_def)
  from T flag have D: "shouldGenerateBackground_A (JBool True) Map.empty True = shouldGenerateBackground_A (JBool True) Map.empty False"
    by blast
  from T2 have B: "count_list (trace (snd (sceneTransitionCallback_B example_ctx ?nB JUndefined example_world))) SdProbe = 0"
    by (simp add: example_world_def)
  from A B D show ?thesis by simp
qed

text \<open>C7 as stated fails in variant A: with the explicit flag set, and also with no flag
  and the auto-trigger setting at its default \<open>false\<close>, the run evaluates the probe.\<close>

theorem probe_not_short_circuited:
  "generateBg_A (Some [''background'' \<mapsto> JBool True]) = JBool True \<and>
   count_list (trace (snd (sceneTransitionCallback_A example_ctx (Some [''background'' \<mapsto> JBool True])
      (JStr ''To the beach'') example_world))) SdProbe = 1 \<and>
   generateBg_A None = JUndefined \<and>
   getProp (DEFAULT_SETTINGS_A ++ userSettings_of Map.empty) ''autoGenerateBackground'' = JBool False \<and>
   count_list (trace (snd (sceneTransitionCallback_A (example_ctx\<lparr>extensionSettings := Some Map.empty\<rparr>) None
      (JStr ''To the beach'') example_world))) SdProbe = 1"
  by (simp add: sceneTransitionCallback_A_def sceneTransitionCallback_body_A_def
        generateSceneLine_A_def generateSceneLine_body_A_def getSettings_A_def
        insertAssistantMessage_def buildAssistantMessage_def isStableDiffusionAvailable_def
        generateBackgroundImage_A_def shouldGenerateBackground_A_def generateBg_A_def
        resolve_instruction_def resolve_style_def resolve_max_def optProp_def getProp_def js_or_def js_and_def
        finalResult_def trim_def is_ws_def Let_def DEFAULT_SETTINGS_A_def userSettings_of_def
        EXTENSION_SETTINGS_KEY_def js_defs example_ctx_def example_extensionSettings_def example_world_def
        backend_hello_def emit_ok_def addOneMessage_ok_def)


section \<open>The outcome of a transition\<close>






section \<open>Generation and what is thrown inside it\<close>

lemma startsWith_self: "startsWith s s"
  by (simp add: startsWith_def)













section \<open>What generation is called with\<close>

lemma generateSceneLine_A_calls:
  assumes "generateQuietPrompt ctx = Some g" and "extensionSettings ctx = Some es"
  shows "trace (snd (generateSceneLine_A ctx i st m w))
     = trace w @ SubstituteParams (quietPrompt_A (instructions_A es) st i) #
         (case substituteParams ctx (quietPrompt_A (instructions_A es) st i) of
            Inl e \<Rightarrow> []
          | Inr p \<Rightarrow> [GenerateQuietPrompt \<lparr>quietPrompt = p, quietToLoud = True,
                         maxTokens = Some (if truthy m then Number m else Num (Fin 120))\<rparr>])"
  using assms
  by (simp add: generateSceneLine_A_def generateSceneLine_body_A_def getSettings_A_def instructions_A_def
        userSettings_of_def js_defs Let_def split: sum.splits prod.splits)

lemma generateSceneLine_B_calls:
  assumes "generateQuietPrompt ctx = Some g" and "extensionSettings ctx = Some es"
  shows "trace (snd (generateSceneLine_B ctx w))
     = trace w @ SubstituteParams (toString (instructions_B es)) #
         (case substituteParams ctx (toString (instructions_B es)) of
            Inl e \<Rightarrow> []
          | Inr p \<Rightarrow> [GenerateQuietPrompt \<lparr>quietPrompt = p, quietToLoud = True, maxTokens = None\<rparr>])"
  unfolding generateSceneLine_B_world
  using assms
  by (simp add: generateSceneLine_body_B_def getSettings_B_def instructions_B_def
        userSettings_of_def js_defs Let_def split: sum.splits prod.splits)



lemma truthy_resolve_style:
  "truthy (resolve_style named) = truthy (optProp named ''style'')"
  "truthy (optProp named ''style'') \<Longrightarrow> resolve_style named = optProp named ''style''"
  by (simp_all add: resolve_style_def js_or_def)

lemma trim_nonempty: "trim s \<noteq> [] \<Longrightarrow> s \<noteq> []"
  by (auto simp: trim_def)

lemma truthy_resolve_instruction: "truthy (resolve_instruction unnamed)"
  by (auto simp: resolve_instruction_def default_instruction_def dest: trim_nonempty split: js_value.splits)

section \<open>The directive\<close>

text \<open>
  C5, as amended. Let the generation capability be present and the settings readable.
  A transition of variant B first hands \<open>substituteParams\<close> the configured instructions
  and nothing else: no marker, no style line, no notes line, whatever the request
  carries. The first thing a transition of variant A does is to hand
  \<open>substituteParams\<close> the directive made of: the marker line; the configured instructions; the style line
  \<open>"Style hint: " + style\<close> when \<open>named.style\<close> is truthy (for a string: non-empty) and
  an empty line otherwise; the notes line, always; the closing constraint. The note of
  the notes line is \<open>unnamed\<close> itself when that is a string with a non-blank character,
  and otherwise the built-in text
  \<open>"Allow the character to transition to a new scene that makes sense."\<close>; it is never
  empty.
\<close>

theorem directive_composition:
  assumes "generateQuietPrompt ctx = Some g" and "extensionSettings ctx = Some es"
  shows
   "(\<exists>rest. trace (snd (sceneTransitionCallback_A ctx named unnamed w))
        = trace w @ SubstituteParams
            (''[OOC Scene Direction]'' @ [newline]
             @ toString (instructions_A es) @ [newline]
             @ (if truthy (optProp named ''style'')
                then ''Style hint: '' @ toString (optProp named ''style'') else []) @ [newline]
             @ ''Scene notes: '' @ toString (resolve_instruction unnamed) @ [newline]
             @ ''Return only the character's spoken or internal line (no extra narrative).'') # rest) \<and>
    toString (resolve_instruction unnamed) \<noteq> [] \<and>
    (\<forall>s. unnamed = JStr s \<and> trim s \<noteq> [] \<longrightarrow> resolve_instruction unnamed = JStr s) \<and>
    ((\<forall>s. unnamed = JStr s \<longrightarrow> trim s = []) \<longrightarrow>
       resolve_instruction unnamed = JStr ''Allow the character to transition to a new scene that makes sense.'') \<and>
    (\<forall>s. optProp named ''style'' = JStr s \<longrightarrow> truthy (optProp named ''style'') = (s \<noteq> [])) \<and>
    (\<exists>rest. trace (snd (sceneTransitionCallback_B ctx named unnamed w))
        = trace w @ SubstituteParams (toString (instructions_B es)) # rest)"
proof (intro conjI)
  let ?gen = "generateSceneLine_A ctx (resolve_instruction unnamed) (resolve_style named) (resolve_max named)"
  let ?d = "quietPrompt_A (instructions_A es) (resolve_style named) (resolve_instruction unnamed)"
  have d: "?d = ''[OOC Scene Direction]'' @ [newline]
             @ toString (instructions_A es) @ [newline]
             @ (if truthy (optProp named ''style'')
                then ''Style hint: '' @ toString (optProp named ''style'') else []) @ [newline]
             @ ''Scene notes: '' @ toString (resolve_instruction unnamed) @ [newline]
             @ ''Return only the character's spoken or internal line (no extra narrative).''"
    by (simp add: quietPrompt_A_def truthy_resolve_instruction truthy_resolve_style)
  obtain evs where evs: "trace (snd (?gen w)) = trace w @ SubstituteParams ?d # evs"
    using generateSceneLine_A_calls [OF assms] by blast
  obtain rest where rest: "trace (snd (sceneTransitionCallback_A ctx named unnamed w)) = trace (snd (?gen w)) @ rest"
    using callback_A_after_generation by blast
  have "trace (snd (sceneTransitionCallback_A ctx named unnamed w)) = trace w @ SubstituteParams ?d # (evs @ rest)"
    by (simp add: rest evs)
  then show "\<exists>rest. trace (snd (sceneTransitionCallback_A ctx named unnamed w))
        = trace w @ SubstituteParams
            (''[OOC Scene Direction]'' @ [newline]
             @ toString (instructions_A es) @ [newline]
             @ (if truthy (optProp named ''style'')
                then ''Style hint: '' @ toString (optProp named ''style'') else []) @ [newline]
             @ ''Scene notes: '' @ toString (resolve_instruction unnamed) @ [newline]
             @ ''Return only the character's spoken or internal line (no extra narrative).'') # rest"
    unfolding d by blast
next
  show "toString (resolve_instruction unnamed) \<noteq> []"
    by (auto simp: resolve_instruction_def default_instruction_def dest: trim_nonempty split: js_value.splits)
  show "\<forall>s. unnamed = JStr s \<and> trim s \<noteq> [] \<longrightarrow> resolve_instruction unnamed = JStr s"
    by (simp add: resolve_instruction_def)
  show "(\<forall>s. unnamed = JStr s \<longrightarrow> trim s = []) \<longrightarrow>
       resolve_instruction unnamed = JStr ''Allow the character to transition to a new scene that makes sense.''"
    by (simp add: resolve_instruction_def default_instruction_def split: js_value.splits)
  show "\<forall>s. optProp named ''style'' = JStr s \<longrightarrow> truthy (optProp named ''style'') = (s \<noteq> [])"
    by simp
next
  obtain evs where evs: "trace (snd (generateSceneLine_B ctx w))
      = trace w @ SubstituteParams (toString (instructions_B es)) # evs"
    using generateSceneLine_B_calls [OF assms] by blast
  obtain rest where rest: "trace (snd (sceneTransitionCallback_B ctx named unnamed w))
      = trace (snd (generateSceneLine_B ctx w)) @ rest"
    using callback_B_after_generation by blast
  have "trace (snd (sceneTransitionCallback_B ctx named unnamed w))
      = trace w @ SubstituteParams (toString (instructions_B es)) # (evs @ rest)"
    by (simp add: rest evs)
  then show "\<exists>rest. trace (snd (sceneTransitionCallback_B ctx named unnamed w))
        = trace w @ SubstituteParams (toString (instructions_B es)) # rest"
    by blast
qed

text \<open>The theorem at a request with a style and a blank note.\<close>

theorem directive_composition_witness:
  "generateQuietPrompt example_ctx = Some backend_hello \<and>
   extensionSettings example_ctx = Some example_extensionSettings \<and>
   hd (trace (snd (sceneTransitionCallback_A example_ctx (Some [''style'' \<mapsto> JStr ''noir'']) (JStr ''   '') example_world)))
     = SubstituteParams
         (''[OOC Scene Direction]'' @ [newline]
          @ ''Move on.'' @ [newline]
          @ ''Style hint: noir'' @ [newline]
          @ ''Scene notes: Allow the character to transition to a new scene that makes sense.'' @ [newline]
          @ ''Return only the character's spoken or internal line (no extra narrative).'') \<and>
   hd (trace (snd (sceneTransitionCallback_B example_ctx (Some [''style'' \<mapsto> JStr ''noir'']) (JStr ''   '') example_world)))
     = SubstituteParams ''Move on.''"
proof -
  let ?named = "Some [''style'' \<mapsto> JStr ''noir'']"
  have g: "generateQuietPrompt example_ctx = Some backend_hello"
    and es: "extensionSettings example_ctx = Some example_extensionSettings"
    by (simp_all add: example_ctx_def)
  have blank: "\<forall>s. JStr ''   '' = JStr s \<longrightarrow> trim s = []"
    by (simp add: trim_def is_ws_def)
  have instr: "toString (instructions_A example_extensionSettings) = ''Move on.''"
    by (simp add: instructions_A_def userSettings_of_def example_extensionSettings_def
          EXTENSION_SETTINGS_KEY_def getProp_def js_or_def)
  have style: "optProp ?named ''style'' = JStr ''noir''"
    by (simp add: optProp_def getProp_def)
  from directive_composition [OF g es, of ?named "JStr ''   ''" example_world] blank
  obtain rest where
    "trace (snd (sceneTransitionCallback_A example_ctx ?named (JStr ''   '') example_world))
        = trace example_world @ SubstituteParams
            (''[OOC Scene Direction]'' @ [newline]
             @ toString (instructions_A example_extensionSettings) @ [newline]
             @ (if truthy (optProp ?named ''style'')
                then ''Style hint: '' @ toString (optProp ?named ''style'') else []) @ [newline]
             @ ''Scene notes: '' @ toString (resolve_instruction (JStr ''   '')) @ [newline]
             @ ''Return only the character's spoken or internal line (no extra narrative).'') # rest"
    and "resolve_instruction (JStr ''   '') = JStr ''Allow the character to transition to a new scene that makes sense.''"
    by blast
  then have A: "hd (trace (snd (sceneTransitionCallback_A example_ctx ?named (JStr ''   '') example_world)))
     = SubstituteParams
         (''[OOC Scene Direction]'' @ [newline]
          @ ''Move on.'' @ [newline]
          @ ''Style hint: noir'' @ [newline]
          @ ''Scene notes: Allow the character to transition to a new scene that makes sense.'' @ [newline]
          @ ''Return only the character's spoken or internal line (no extra narrative).'')"
    by (simp add: instr style example_world_def)
  have instrB: "toString (instructions_B example_extensionSettings) = ''Move on.''"
    by (simp add: instructions_B_def userSettings_of_def example_extensionSettings_def
          EXTENSION_SETTINGS_KEY_def getProp_def js_or_def)
  from directive_composition [OF g es, of ?named "JStr ''   ''" example_world]
  obtain restB where
    "trace (snd (sceneTransitionCallback_B example_ctx ?named (JStr ''   '') example_world))
        = trace example_world @ SubstituteParams (toString (instructions_B example_extensionSettings)) # restB"
    by blast
  then have B: "hd (trace (snd (sceneTransitionCallback_B example_ctx ?named (JStr ''   '') example_world)))
     = SubstituteParams ''Move on.''"
    by (simp add: instrB example_world_def)
  from g es A B show ?thesis by blast
qed

text \<open>C5 as stated fails. It names a generic instruction that is not the one of the
  code: an empty note and a blank note resolve to another text, and that text is what the
  notes line of variant A carries. And variant B, given a style and a note, composes a
  directive with neither a style line nor a notes line.\<close>

theorem generic_note_text:
  "resolve_instruction (JStr []) \<noteq> JStr ''transition the characters to a new scene that makes sense'' \<and>
   resolve_instruction (JStr ''   '') \<noteq> JStr ''transition the characters to a new scene that makes sense'' \<and>
   resolve_instruction (JStr []) = JStr ''Allow the character to transition to a new scene that makes sense.'' \<and>
   quietPrompt_A (JStr ''Move on.'') (resolve_style None) (resolve_instruction (JStr []))
     = ''[OOC Scene Direction]'' @ [newline]
       @ ''Move on.'' @ [newline]
       @ [newline]
       @ ''Scene notes: Allow the character to transition to a new scene that makes sense.'' @ [newline]
       @ ''Return only the character's spoken or internal line (no extra narrative).'' \<and>
   hd (trace (snd (sceneTransitionCallback_B example_ctx (Some [''style'' \<mapsto> JStr ''noir''])
                     (JStr ''To the beach'') example_world)))
     = SubstituteParams ''Move on.''"
  by (simp add: resolve_instruction_def default_instruction_def trim_def is_ws_def quietPrompt_A_def
        resolve_style_def optProp_def js_or_def
        sceneTransitionCallback_B_def sceneTransitionCallback_body_B_def
        generateSceneLine_B_def generateSceneLine_body_B_def getSettings_B_def
        insertAssistantMessage_def buildAssistantMessage_def generateBackgroundImage_B_def
        shouldGenerateBackground_B_def generateBg_B_def getProp_def
        finalResult_def Let_def DEFAULT_SETTINGS_B_def
        EXTENSION_SETTINGS_KEY_def js_defs example_ctx_def example_extensionSettings_def example_world_def
        backend_hello_def emit_ok_def addOneMessage_ok_def)


section \<open>The token budget\<close>

text \<open>Strings whose number the model leaves symbolic.\<close>

lemma Number_left_symbolic:
  "Number (JStr ''1e3'') = NumberOf ''1e3''"
  "Number (JStr ''0x10'') = NumberOf ''0x10''"
  "Number (JStr ''12.0'') = NumberOf ''12.0''"
  "Number (JStr ''-5'') = NumberOf ''-5''"
  "Number (JStr ''9007199254740993'') = NumberOf ''9007199254740993''"
  "Number (JStr ''abc'') = NumberOf ''abc''"
  by (simp_all add: string_to_number_def trim_def is_ws_def is_digit_def)





section \<open>The placeholder is inserted\<close>





section \<open>Insertion is not atomic\<close>





end
